theory Spec2Isabelle
  imports Complex_Main "HOL-Library.AList"
begin

section \<open>The XRF fitting module of scikit-beam\<close>

text \<open>
  A shallow embedding of \<^verbatim>\<open>src/skxray/fitting/xrf_model.py\<close>. Python floats are
  modelled as real numbers, arrays as lists, dictionaries as association lists
  (looked up with \<open>map_of\<close>) or maps, and every exception the source can raise as a
  value \<open>Inl e\<close> of a sum type. Calls to the logger and to \<^verbatim>\<open>print\<close> return nothing
  and change no value the functions work with; they are left out.
\<close>

subsection \<open>Exceptions\<close>

datatype error =
    KeyError | ValueError | AttributeError | UnboundLocalError | NameError | TypeError
  | IndexError | DivideByZero

text \<open>
  \<open>DivideByZero\<close> marks a division by zero inside a numpy array operation. numpy
  itself raises nothing there: it warns and carries on with \<^verbatim>\<open>inf\<close> or
  \<^verbatim>\<open>nan\<close>, values the real numbers do not have.
\<close>

fun ebind :: "error + 'a \<Rightarrow> ('a \<Rightarrow> error + 'b) \<Rightarrow> error + 'b" where
  "ebind (Inl e) f = Inl e"
| "ebind (Inr x) f = f x"

fun emap :: "('a \<Rightarrow> error + 'b) \<Rightarrow> 'a list \<Rightarrow> error + 'b list" where
  "emap f [] = Inr []"
| "emap f (x # xs) = ebind (f x) (\<lambda>y. ebind (emap f xs) (\<lambda>ys. Inr (y # ys)))"

definition getitem :: "('k \<rightharpoonup> 'v) \<Rightarrow> 'k \<Rightarrow> error + 'v" where
  "getitem d k = (case d k of None \<Rightarrow> Inl KeyError | Some v \<Rightarrow> Inr v)"

subsection \<open>Emission line tables\<close>

definition k_line :: "string list" where
  "k_line = [''Na'', ''Mg'', ''Al'', ''Si'', ''P'', ''S'', ''Cl'', ''Ar'', ''K'', ''Ca'', ''Sc'',
     ''Ti'', ''V'', ''Cr'', ''Mn'', ''Fe'', ''Co'', ''Ni'', ''Cu'', ''Zn'', ''Ga'', ''Ge'', ''As'',
     ''Se'', ''Br'', ''Kr'', ''Rb'', ''Sr'', ''Y'', ''Zr'', ''Nb'', ''Mo'', ''Tc'', ''Ru'', ''Rh'',
     ''Pd'', ''Ag'', ''Cd'', ''In'', ''Sn'', ''Sb'', ''Te'', ''I'']"

definition l_line :: "string list" where
  "l_line = [''Ga_L'', ''Ge_L'', ''As_L'', ''Se_L'', ''Br_L'', ''Kr_L'', ''Rb_L'', ''Sr_L'',
     ''Y_L'', ''Zr_L'', ''Nb_L'', ''Mo_L'', ''Tc_L'', ''Ru_L'', ''Rh_L'', ''Pd_L'', ''Ag_L'',
     ''Cd_L'', ''In_L'', ''Sn_L'', ''Sb_L'', ''Te_L'', ''I_L'', ''Xe_L'', ''Cs_L'', ''Ba_L'',
     ''La_L'', ''Ce_L'', ''Pr_L'', ''Nd_L'', ''Pm_L'', ''Sm_L'', ''Eu_L'', ''Gd_L'', ''Tb_L'',
     ''Dy_L'', ''Ho_L'', ''Er_L'', ''Tm_L'', ''Yb_L'', ''Lu_L'', ''Hf_L'', ''Ta_L'', ''W_L'',
     ''Re_L'', ''Os_L'', ''Ir_L'', ''Pt_L'', ''Au_L'', ''Hg_L'', ''Tl_L'', ''Pb_L'', ''Bi_L'',
     ''Po_L'', ''At_L'', ''Rn_L'', ''Fr_L'', ''Ac_L'', ''Th_L'', ''Pa_L'', ''U_L'', ''Np_L'',
     ''Pu_L'', ''Am_L'']"

definition m_line :: "string list" where
  "m_line = [''Hf_M'', ''Ta_M'', ''W_M'', ''Re_M'', ''Os_M'', ''Ir_M'', ''Pt_M'', ''Au_M'',
     ''Hg_M'', ''TL_M'', ''Pb_M'', ''Bi_M'', ''Sm_M'', ''Eu_M'', ''Gd_M'', ''Tb_M'', ''Dy_M'',
     ''Ho_M'', ''Er_M'', ''Tm_M'', ''Yb_M'', ''Lu_M'', ''Th_M'', ''Pa_M'', ''U_M'']"

subsection \<open>The per-line peak: \<^verbatim>\<open>element_peak_xrf\<close>\<close>

text \<open>
  \<^verbatim>\<open>gaussian\<close> (skxray.fitting.lineshapes) is not part of the module; it is a
  parameter of the model, a function from an array and three numbers to an array.
  \<open>get_sigma\<close> is the inner function of the source, with the variables it closes
  over as its first arguments.
\<close>

definition get_sigma :: "real \<Rightarrow> real \<Rightarrow> real \<Rightarrow> real \<Rightarrow> real" where
  "get_sigma fwhm_offset fwhm_fanoprime epsilon center =
     (let temp_val = 2 * sqrt (2 * ln 2)
      in sqrt ((fwhm_offset / temp_val)\<^sup>2 + center * epsilon * fwhm_fanoprime))"

definition element_peak_xrf ::
  "(real list \<Rightarrow> real \<Rightarrow> real \<Rightarrow> real \<Rightarrow> real list) \<Rightarrow> real list \<Rightarrow> real \<Rightarrow> real \<Rightarrow>
     real \<Rightarrow> real \<Rightarrow> real \<Rightarrow> real \<Rightarrow> real \<Rightarrow> real \<Rightarrow> real \<Rightarrow> real \<Rightarrow> real \<Rightarrow> real \<Rightarrow> real list" where
  "element_peak_xrf gaussian x area center delta_center delta_sigma ratio ratio_adjust
       fwhm_offset fwhm_fanoprime e_offset e_linear e_quadratic epsilon =
     (let x' = map (\<lambda>xi. e_offset + xi * e_linear + xi\<^sup>2 * e_quadratic) x
      in map (\<lambda>g. g * ratio * ratio_adjust)
           (gaussian x' area (center + delta_center)
              (delta_sigma + get_sigma fwhm_offset fwhm_fanoprime epsilon center)))"

text \<open>The default of the keyword argument \<^verbatim>\<open>epsilon\<close>.\<close>

definition epsilon_default :: real where
  "epsilon_default = 2.96"

subsection \<open>The fitted-area aggregator: \<^verbatim>\<open>get_sum_area\<close>\<close>

text \<open>
  \<^verbatim>\<open>result_val.values\<close> is a dictionary from parameter names to fitted numbers. The
  variable \<^verbatim>\<open>sum\<close> is local to the function and assigned only in the K branch:
  reading it in \<^verbatim>\<open>return sum\<close> without that assignment raises UnboundLocalError.
\<close>

definition get_value :: "(string \<rightharpoonup> real) \<Rightarrow> string \<Rightarrow> string \<Rightarrow> error + real" where
  "get_value result_values element_name line_name =
     ebind (getitem result_values (element_name @ ''_'' @ line_name @ ''_area'')) (\<lambda>a.
     ebind (getitem result_values (element_name @ ''_'' @ line_name @ ''_ratio'')) (\<lambda>r.
     ebind (getitem result_values (element_name @ ''_'' @ line_name @ ''_ratio_adjust'')) (\<lambda>ra.
       Inr (a * r * ra))))"

definition get_sum_area :: "string \<Rightarrow> (string \<rightharpoonup> real) \<Rightarrow> error + real" where
  "get_sum_area element_name result_values =
     (if element_name \<in> set k_line then
        ebind (get_value result_values element_name ''ka1'') (\<lambda>ka1.
        ebind (get_value result_values element_name ''ka2'') (\<lambda>ka2.
        ebind (get_value result_values element_name ''kb1'') (\<lambda>kb1.
          let sum = ka1 + ka2 + kb1 in
          if result_values (element_name @ ''_kb2_area'') \<noteq> None
          then ebind (get_value result_values element_name ''kb2'') (\<lambda>kb2. Inr (sum + kb2))
          else Inr sum)))
      else Inl UnboundLocalError)"

subsection \<open>The weighted pre-fit: \<^verbatim>\<open>PreFitAnalysis.nnls_fit_weight\<close>\<close>

definition np_divide :: "real \<Rightarrow> real \<Rightarrow> error + real" where
  "np_divide a b = (if b = 0 then Inl DivideByZero else Inr (a / b))"

text \<open>Python's \<^verbatim>\<open>max\<close> of a sequence; it raises ValueError on an empty one.\<close>

fun py_max :: "real list \<Rightarrow> error + real" where
  "py_max [] = Inl ValueError"
| "py_max (x # xs) = Inr (fold max xs x)"

text \<open>Line 884: \<^verbatim>\<open>weights = 1.0 / (1.0 + experiments)\<close>.\<close>

definition raw_weights :: "real list \<Rightarrow> error + real list" where
  "raw_weights experiments = emap (\<lambda>e. np_divide 1 (1 + e)) experiments"

text \<open>Lines 884 to 886: the weights as they are handed to the solver.\<close>

definition normalized_weights :: "real list \<Rightarrow> error + real list" where
  "normalized_weights experiments =
     ebind (raw_weights experiments) (\<lambda>weights.
     let weights = map abs weights in
     ebind (py_max weights) (\<lambda>m.
       emap (\<lambda>w. np_divide w m) weights))"

text \<open>
  Lines 888 to 891. \<^verbatim>\<open>standard\<close> is a matrix with one row per channel; the rows are
  scaled by the square roots of the weights (numpy broadcasts a one-row matrix or a
  single weight, and refuses every other mismatch of the two lengths). The solver
  \<^verbatim>\<open>scipy.optimize.nnls\<close> is a parameter.
\<close>

definition scale_rows :: "real list list \<Rightarrow> real list \<Rightarrow> error + real list list" where
  "scale_rows standard sw =
     (if length standard = length sw then Inr (map2 (\<lambda>row w. map (\<lambda>v. v * w) row) standard sw)
      else if length standard = 1 then Inr (map (\<lambda>w. map (\<lambda>v. v * w) (hd standard)) sw)
      else if length sw = 1 then Inr (map (\<lambda>row. map (\<lambda>v. v * hd sw) row) standard)
      else Inl ValueError)"

definition nnls_fit_weight ::
  "(real list list \<Rightarrow> real list \<Rightarrow> error + (real list \<times> real)) \<Rightarrow> real list list \<Rightarrow> real list
     \<Rightarrow> error + (real list \<times> real)" where
  "nnls_fit_weight nnls standard experiments =
     ebind (normalized_weights experiments) (\<lambda>weights.
     ebind (scale_rows standard (map sqrt weights)) (\<lambda>a.
     let b = map2 (*) experiments (map sqrt weights)
     in nnls a b))"

subsection \<open>Parameter tables\<close>

text \<open>
  A ParameterSpec is a dictionary with the eight keys \<^verbatim>\<open>bound_type\<close>, \<^verbatim>\<open>value\<close>,
  \<^verbatim>\<open>min\<close>, \<^verbatim>\<open>max\<close>, \<^verbatim>\<open>free_more\<close>, \<^verbatim>\<open>adjust_element\<close>, \<^verbatim>\<open>e_calibration\<close> and
  \<^verbatim>\<open>linear\<close>; what is stored under a key is a number or a string. The entry
  \<^verbatim>\<open>non_fitting_values\<close> of a table is a dictionary of its own, of which the module
  reads three keys. A table is a dictionary from names to such entries.
\<close>

datatype pyval = Num real | Str string

record ParameterSpec =
  bound_type :: pyval
  value_v :: pyval
  min_v :: pyval
  max_v :: pyval
  free_more :: pyval
  adjust_element :: pyval
  e_calibration :: pyval
  linear_v :: pyval

record non_fit =
  nf_element_list :: "string option"
  nf_energy_bound_low :: "real option"
  nf_energy_bound_high :: "real option"

datatype entry = Spec ParameterSpec | NonFit non_fit

type_synonym ParameterTable = "(string \<times> entry) list"

text \<open>\<^verbatim>\<open>d[key]\<close> on an entry that is read as a ParameterSpec, and as the non-fitting
  dictionary: the key is missing from a dictionary of the other kind.\<close>

definition as_spec :: "entry \<Rightarrow> error + ParameterSpec" where
  "as_spec e = (case e of Spec d \<Rightarrow> Inr d | NonFit nf \<Rightarrow> Inl KeyError)"

definition nf_getitem :: "(non_fit \<Rightarrow> 'a option) \<Rightarrow> entry \<Rightarrow> error + 'a" where
  "nf_getitem key e =
     (case e of Spec d \<Rightarrow> Inl KeyError
      | NonFit nf \<Rightarrow> (case key nf of None \<Rightarrow> Inl KeyError | Some v \<Rightarrow> Inr v))"

subsection \<open>The energy window: \<^verbatim>\<open>set_range\<close>\<close>

text \<open>Python 2's \<^verbatim>\<open>zip\<close> returns a list, which both comprehensions traverse.\<close>

definition set_range :: "ParameterTable \<Rightarrow> real list \<Rightarrow> 'a list \<Rightarrow> error + (real list \<times> 'a list)" where
  "set_range parameter x1 y1 =
     ebind (getitem (map_of parameter) ''non_fitting_values'') (\<lambda>nf.
     ebind (nf_getitem nf_energy_bound_low nf) (\<lambda>low.
     let lowv = low * 100 in
     ebind (getitem (map_of parameter) ''non_fitting_values'') (\<lambda>nf.
     ebind (nf_getitem nf_energy_bound_high nf) (\<lambda>high.
     let highv = high * 100;
         all = zip x1 y1;
         x0 = map fst (filter (\<lambda>item. fst item > lowv \<and> fst item < highv) all);
         y0 = map snd (filter (\<lambda>item. fst item > lowv \<and> fst item < highv) all)
     in Inr (x0, y0)))))"

subsection \<open>Parameter hints of a model\<close>

text \<open>
  Modelled from the spec: lmfit's \<^verbatim>\<open>Model\<close> is not under src/. Section 6 of the
  spec describes it as a named parameter with hint abstraction supporting fixed, free
  and bounded parameters and symbolic expressions that link parameters. A model has a
  prefix and, per parameter name, the hints given so far for the keywords
  \<^verbatim>\<open>value\<close>, \<^verbatim>\<open>vary\<close>, \<^verbatim>\<open>min\<close>, \<^verbatim>\<open>max\<close> and \<^verbatim>\<open>expr\<close>. \<^verbatim>\<open>set_param_hint\<close> removes
  the model's prefix from the front of the name, and stores the keywords of the call
  under that name; a hint stored earlier for a keyword the call does not give stays.
\<close>

record hint =
  hint_value :: "pyval option"
  hint_vary :: "bool option"
  hint_min :: "pyval option"
  hint_max :: "pyval option"
  hint_expr :: "string option"

record Model =
  prefix :: string
  param_hints :: "string \<rightharpoonup> hint"

definition no_hint :: hint where
  "no_hint = \<lparr>hint_value = None, hint_vary = None, hint_min = None, hint_max = None,
     hint_expr = None\<rparr>"

definition keep :: "'a option \<Rightarrow> 'a option \<Rightarrow> 'a option" where
  "keep old new = (case new of None \<Rightarrow> old | Some v \<Rightarrow> Some v)"

definition merge_hint :: "hint \<Rightarrow> hint \<Rightarrow> hint" where
  "merge_hint old kw =
     \<lparr>hint_value = keep (hint_value old) (hint_value kw),
      hint_vary = keep (hint_vary old) (hint_vary kw),
      hint_min = keep (hint_min old) (hint_min kw),
      hint_max = keep (hint_max old) (hint_max kw),
      hint_expr = keep (hint_expr old) (hint_expr kw)\<rparr>"

definition strip_prefix :: "string \<Rightarrow> string \<Rightarrow> string" where
  "strip_prefix pre name =
     (if 0 < length pre \<and> take (length pre) name = pre then drop (length pre) name else name)"

definition hints_of :: "Model \<Rightarrow> string \<Rightarrow> hint" where
  "hints_of m name = (case param_hints m name of None \<Rightarrow> no_hint | Some h \<Rightarrow> h)"

definition set_param_hint :: "Model \<Rightarrow> string \<Rightarrow> hint \<Rightarrow> Model" where
  "set_param_hint m name kw =
     (let name = strip_prefix (prefix m) name
      in m\<lparr>param_hints := (param_hints m)(name \<mapsto> merge_hint (hints_of m name) kw)\<rparr>)"

subsection \<open>The parameter-hint translation: \<^verbatim>\<open>_set_parameter_hint\<close>\<close>

definition set_parameter_hint :: "string \<Rightarrow> ParameterSpec \<Rightarrow> Model \<Rightarrow> bool \<Rightarrow> error + Model" where
  "set_parameter_hint para_name input_dict input_model log_option =
     (if bound_type input_dict = Str ''none'' then
        Inr (set_param_hint input_model para_name
               (no_hint\<lparr>hint_value := Some (value_v input_dict), hint_vary := Some True\<rparr>))
      else if bound_type input_dict = Str ''fixed'' then
        Inr (set_param_hint input_model para_name
               (no_hint\<lparr>hint_value := Some (value_v input_dict), hint_vary := Some False\<rparr>))
      else if bound_type input_dict = Str ''lohi'' then
        Inr (set_param_hint input_model para_name
               (no_hint\<lparr>hint_value := Some (value_v input_dict), hint_vary := Some True,
                  hint_min := Some (min_v input_dict), hint_max := Some (max_v input_dict)\<rparr>))
      else if bound_type input_dict = Str ''lo'' then
        Inr (set_param_hint input_model para_name
               (no_hint\<lparr>hint_value := Some (value_v input_dict), hint_vary := Some True,
                  hint_min := Some (min_v input_dict)\<rparr>))
      else if bound_type input_dict = Str ''hi'' then
        Inr (set_param_hint input_model para_name
               (no_hint\<lparr>hint_value := Some (value_v input_dict), hint_vary := Some True,
                  hint_min := Some (max_v input_dict)\<rparr>))
      else Inl ValueError)"

subsection \<open>Updating a table in place: \<^verbatim>\<open>set_parameter_bound\<close>\<close>

text \<open>\<^verbatim>\<open>v[str(bound_option)]\<close> on a ParameterSpec.\<close>

definition spec_getitem :: "ParameterSpec \<Rightarrow> string \<Rightarrow> error + pyval" where
  "spec_getitem d key =
     (if key = ''bound_type'' then Inr (bound_type d)
      else if key = ''value'' then Inr (value_v d)
      else if key = ''min'' then Inr (min_v d)
      else if key = ''max'' then Inr (max_v d)
      else if key = ''free_more'' then Inr (free_more d)
      else if key = ''adjust_element'' then Inr (adjust_element d)
      else if key = ''e_calibration'' then Inr (e_calibration d)
      else if key = ''linear'' then Inr (linear_v d)
      else Inl KeyError)"

text \<open>
  The loop changes the dictionaries of the table one after the other, in the order of
  the table; when a lookup raises, the entries changed so far stay changed. The model
  returns the table as the loop leaves it, and the exception if one was raised.
\<close>

fun set_parameter_bound :: "ParameterTable \<Rightarrow> string \<Rightarrow> ParameterTable \<times> error option" where
  "set_parameter_bound [] bound_option = ([], None)"
| "set_parameter_bound ((k, v) # rest) bound_option =
     (if k = ''non_fitting_values'' then
        (let (rest', r) = set_parameter_bound rest bound_option in ((k, v) # rest', r))
      else
        (case as_spec v of
           Inl e \<Rightarrow> ((k, v) # rest, Some e)
         | Inr d \<Rightarrow>
             (case spec_getitem d bound_option of
                Inl e \<Rightarrow> ((k, v) # rest, Some e)
              | Inr b \<Rightarrow>
                  (let (rest', r) = set_parameter_bound rest bound_option
                   in ((k, Spec (d\<lparr>bound_type := b\<rparr>)) # rest', r)))))"

subsection \<open>The per-element bound controller: \<^verbatim>\<open>ElementController\<close>\<close>

text \<open>The four entries of \<^verbatim>\<open>element_dict\<close>.\<close>

definition element_dict_pos :: ParameterSpec where
  "element_dict_pos = \<lparr>bound_type = Str ''fixed'', value_v = Num 0, min_v = Num (-0.005),
     max_v = Num 0.005, free_more = Str ''fixed'', adjust_element = Str ''lohi'',
     e_calibration = Str ''fixed'', linear_v = Str ''fixed''\<rparr>"

definition element_dict_width :: ParameterSpec where
  "element_dict_width = \<lparr>bound_type = Str ''fixed'', value_v = Num 0.0, min_v = Num (-0.02),
     max_v = Num 0.02, free_more = Str ''fixed'', adjust_element = Str ''lohi'',
     e_calibration = Str ''fixed'', linear_v = Str ''fixed''\<rparr>"

definition element_dict_area :: ParameterSpec where
  "element_dict_area = \<lparr>bound_type = Str ''none'', value_v = Num 1000, min_v = Num 0,
     max_v = Num 1000000000, free_more = Str ''none'', adjust_element = Str ''fixed'',
     e_calibration = Str ''fixed'', linear_v = Str ''none''\<rparr>"

definition element_dict_ratio :: ParameterSpec where
  "element_dict_ratio = \<lparr>bound_type = Str ''fixed'', value_v = Num 1.0, min_v = Num 0.1,
     max_v = Num 5.0, free_more = Str ''fixed'', adjust_element = Str ''lohi'',
     e_calibration = Str ''fixed'', linear_v = Str ''fixed''\<rparr>"

definition l_list :: "string list" where
  "l_list = [''la1'', ''la2'', ''lb1'', ''lb2'', ''lb3'', ''lg1'', ''lg2'', ''ll'']"

definition get_L_line :: "string \<Rightarrow> string \<Rightarrow> string list" where
  "get_L_line prop_name element = map (\<lambda>item. prop_name @ ''-'' @ element @ ''-'' @ item) l_list"

text \<open>\<^verbatim>\<open>sub in s\<close>, \<^verbatim>\<open>s.split(c)\<close> for a one-character separator, and \<^verbatim>\<open>xs[i]\<close>.\<close>

fun contains :: "string \<Rightarrow> string \<Rightarrow> bool" where
  "contains sub [] = (sub = [])"
| "contains sub (c # cs) = (take (length sub) (c # cs) = sub \<or> contains sub cs)"

fun split_char :: "char \<Rightarrow> string \<Rightarrow> string \<Rightarrow> string list" where
  "split_char sep acc [] = [rev acc]"
| "split_char sep acc (c # cs) =
     (if c = sep then rev acc # split_char sep [] cs else split_char sep (c # acc) cs)"

definition py_index :: "'a list \<Rightarrow> nat \<Rightarrow> error + 'a" where
  "py_index xs i = (if i < length xs then Inr (xs ! i) else Inl IndexError)"

record ElementController =
  new_parameter :: ParameterTable
  element_name :: "string list"

text \<open>
  The constructor. \<^verbatim>\<open>xrf_parameter.copy()\<close> is a new dictionary with the entries of
  the caller's; the controller replaces entries of its copy and changes no dictionary
  stored in it.
\<close>

definition ElementController_init :: "ParameterTable \<Rightarrow> string list \<Rightarrow> ElementController" where
  "ElementController_init xrf_parameter fit_name =
     \<lparr>new_parameter = xrf_parameter,
      element_name = map (\<lambda>item. take (length item - 5) item)
                       (filter (\<lambda>item. contains ''area'' item) fit_name)\<rparr>"

text \<open>
  The body of the loops of the four setters: a copy of the template, with
  \<^verbatim>\<open>adjust_element\<close> replaced when \<^verbatim>\<open>option\<close> is true (neither None nor empty),
  is stored under the line's name.
\<close>

definition with_option :: "ParameterSpec \<Rightarrow> string option \<Rightarrow> ParameterSpec" where
  "with_option template option =
     (case option of
        None \<Rightarrow> template
      | Some v \<Rightarrow> if v \<noteq> [] then template\<lparr>adjust_element := Str v\<rparr> else template)"

definition update_K_lines ::
  "ParameterSpec \<Rightarrow> string option \<Rightarrow> string list \<Rightarrow> ParameterTable \<Rightarrow> ParameterTable" where
  "update_K_lines template option names table =
     fold (\<lambda>linename t. AList.update linename (Spec (with_option template option)) t) names table"

definition linev_of :: "string \<Rightarrow> error + string" where
  "linev_of linename =
     ebind (py_index (split_char CHR ''-'' [] linename) 1) (\<lambda>a.
     ebind (py_index (split_char CHR ''-'' [] linename) 2) (\<lambda>b.
       Inr (a @ ''_'' @ b)))"

fun update_L_lines ::
  "bool \<Rightarrow> ParameterSpec \<Rightarrow> string option \<Rightarrow> string list \<Rightarrow> string list \<Rightarrow> ParameterTable
     \<Rightarrow> error + ParameterTable" where
  "update_L_lines skip_la1 template option known [] table = Inr table"
| "update_L_lines skip_la1 template option known (linename # rest) table =
     (if skip_la1 \<and> contains ''la1'' linename then
        update_L_lines skip_la1 template option known rest table
      else
        ebind (linev_of linename) (\<lambda>linev.
          if linev \<notin> set known then update_L_lines skip_la1 template option known rest table
          else update_L_lines skip_la1 template option known rest
                 (AList.update linename (Spec (with_option template option)) table)))"

definition set_position :: "ElementController \<Rightarrow> string \<Rightarrow> string option \<Rightarrow> error + ElementController" where
  "set_position self item option =
     (if item \<in> set k_line then
        (let pos_list = [item @ ''_ka1_delta_center'', item @ ''_ka2_delta_center'',
                         item @ ''_kb1_delta_center'']
         in Inr (self\<lparr>new_parameter :=
                   update_K_lines element_dict_pos option pos_list (new_parameter self)\<rparr>))
      else if item \<in> set l_line then
        (let item = take (length item - 2) item;
             pos_list = get_L_line ''pos'' item
         in ebind (update_L_lines False element_dict_pos option (element_name self) pos_list
                     (new_parameter self))
              (\<lambda>t. Inr (self\<lparr>new_parameter := t\<rparr>)))
      else Inr self)"

definition set_width :: "ElementController \<Rightarrow> string \<Rightarrow> string option \<Rightarrow> error + ElementController" where
  "set_width self item option =
     (if item \<in> set k_line then
        (let width_list = [item @ ''_ka1_delta_sigma'', item @ ''_ka2_delta_sigma'',
                           item @ ''_kb1_delta_sigma'']
         in Inr (self\<lparr>new_parameter :=
                   update_K_lines element_dict_width option width_list (new_parameter self)\<rparr>))
      else if item \<in> set l_line then
        (let item = take (length item - 2) item;
             data_list = get_L_line ''width'' item
         in ebind (update_L_lines False element_dict_width option (element_name self) data_list
                     (new_parameter self))
              (\<lambda>t. Inr (self\<lparr>new_parameter := t\<rparr>)))
      else Inr self)"

definition set_area :: "ElementController \<Rightarrow> string \<Rightarrow> string option \<Rightarrow> error + ElementController" where
  "set_area self item option =
     (if item \<in> set k_line then
        (let area_list = [item @ ''_ka1_area'']
         in Inr (self\<lparr>new_parameter :=
                   update_K_lines element_dict_area option area_list (new_parameter self)\<rparr>))
      else if item \<in> set l_line then
        (let item = take (length item - 2) item;
             data_list = get_L_line ''area'' item
         in ebind (update_L_lines False element_dict_area option (element_name self) data_list
                     (new_parameter self))
              (\<lambda>t. Inr (self\<lparr>new_parameter := t\<rparr>)))
      else Inr self)"

definition set_ratio :: "ElementController \<Rightarrow> string \<Rightarrow> string option \<Rightarrow> error + ElementController" where
  "set_ratio self item option =
     (if item \<in> set k_line then
        (let data_list = [item @ ''_kb1_ratio_adjust'']
         in Inr (self\<lparr>new_parameter :=
                   update_K_lines element_dict_ratio option data_list (new_parameter self)\<rparr>))
      else if item \<in> set l_line then
        (let item = take (length item - 2) item;
             data_list = get_L_line ''ratio'' item
         in ebind (update_L_lines True element_dict_ratio option (element_name self) data_list
                     (new_parameter self))
              (\<lambda>t. Inr (self\<lparr>new_parameter := t\<rparr>)))
      else Inr self)"

text \<open>
  \<^verbatim>\<open>set_val\<close>: the keyword arguments in the order the dictionary yields them. It returns
  \<^verbatim>\<open>self.new_parameter\<close>; the model returns the controller as well.
\<close>

fun for_elements ::
  "(ElementController \<Rightarrow> string \<Rightarrow> string option \<Rightarrow> error + ElementController) \<Rightarrow>
     ElementController \<Rightarrow> string list \<Rightarrow> string \<Rightarrow> error + ElementController" where
  "for_elements func self [] v = Inr self"
| "for_elements func self (element # rest) v =
     ebind (func self element (Some v)) (\<lambda>self'. for_elements func self' rest v)"

fun set_val ::
  "ElementController \<Rightarrow> string list \<Rightarrow> (string \<times> string) list
     \<Rightarrow> error + (ElementController \<times> ParameterTable)" where
  "set_val self element_list [] = Inr (self, new_parameter self)"
| "set_val self element_list ((k, v) # kws) =
     ebind (if k = ''pos'' then Inr set_position
            else if k = ''width'' then Inr set_width
            else if k = ''area'' then Inr set_area
            else if k = ''ratio'' then Inr set_ratio
            else Inl ValueError) (\<lambda>func.
     ebind (for_elements func self element_list v) (\<lambda>self'.
       set_val self' element_list kws))"

subsection \<open>What \<^verbatim>\<open>ModelSpectrum\<close> takes from outside the module\<close>

text \<open>
  Modelled from the spec: the reference data \<^verbatim>\<open>XrfElement\<close>, the default table
  \<^verbatim>\<open>get_para\<close>, the classes \<^verbatim>\<open>ComptonModel\<close> and \<^verbatim>\<open>ElasticModel\<close> and lmfit's
  \<^verbatim>\<open>make_params\<close> and \<^verbatim>\<open>+\<close> are not under src/. They are parameters of the model,
  collected in a record:
  \<^item> an element has the ordered list \<^verbatim>\<open>emission_line.all\<close> of pairs of a line name and
    an energy, and the cross-section lookup \<^verbatim>\<open>cs(energy)[line]\<close>, which is \<open>0\<close> for a
    line that is not excited (section 6 of the spec);
  \<^item> \<^verbatim>\<open>get_para()\<close> is a table;
  \<^item> \<^verbatim>\<open>ComptonModel()\<close> and \<^verbatim>\<open>ElasticModel(prefix=...)\<close> are models with whatever
    hints their classes set;
  \<^item> \<^verbatim>\<open>make_params\<close> gives, per parameter name of a model, the parameter's value;
  \<^item> \<^verbatim>\<open>left + right\<close> is the composite of the components of both operands, in this
    order; lmfit refuses some pairs of models (those that share a parameter name), and
    \<open>compatible\<close> says which pairs it accepts. An operand that is no model (None) is
    refused as well.
\<close>

record Element =
  emission_line_all :: "(string \<times> real) list"
  cs :: "pyval \<Rightarrow> string \<Rightarrow> real"

record boundary =
  get_para :: ParameterTable
  XrfElement :: "string \<Rightarrow> Element"
  ComptonModel_hints :: "string \<rightharpoonup> hint"
  ElasticModel_hints :: "string \<rightharpoonup> hint"
  make_params :: "Model \<Rightarrow> string \<rightharpoonup> pyval"
  compatible :: "Model list \<Rightarrow> Model list \<Rightarrow> bool"

type_synonym composite = "Model list"

definition model_add :: "boundary \<Rightarrow> composite \<Rightarrow> composite \<Rightarrow> error + composite" where
  "model_add b left right = (if compatible b left right then Inr (left @ right) else Inl NameError)"

text \<open>\<^verbatim>\<open>ElementModel(prefix=...)\<close>: a model without hints but the one its constructor sets.\<close>

definition ElementModel :: "string \<Rightarrow> Model" where
  "ElementModel pre =
     set_param_hint \<lparr>prefix = pre, param_hints = Map.empty\<rparr> ''epsilon''
       (no_hint\<lparr>hint_value := Some (Num 2.96), hint_vary := Some False\<rparr>)"

subsection \<open>The store\<close>

text \<open>
  Python passes dictionaries by reference. The tables of the program live in a store,
  by address; a variable that holds a table holds its address. \<^verbatim>\<open>set_parameter_bound\<close>
  changes the table at the address it is given.
\<close>

type_synonym store = "nat \<Rightarrow> ParameterTable"

definition set_parameter_bound_at :: "store \<Rightarrow> nat \<Rightarrow> string \<Rightarrow> store \<times> error option" where
  "set_parameter_bound_at s xrf_parameter bound_option =
     (let (t, r) = set_parameter_bound (s xrf_parameter) bound_option
      in (s(xrf_parameter := t), r))"

subsection \<open>\<^verbatim>\<open>ModelSpectrum\<close>: construction\<close>

text \<open>
  The attributes of an instance. \<^verbatim>\<open>parameter\<close> is the address of a table.
  \<^verbatim>\<open>element_list\<close> and \<^verbatim>\<open>mod\<close> are \<open>None\<close> as long as the attribute has not been
  assigned; reading such an attribute raises AttributeError.
\<close>

record ModelSpectrum =
  parameter :: nat
  parameter_default :: ParameterTable
  element_list :: "string list option"
  incident_energy :: pyval
  compton_param :: "string \<rightharpoonup> pyval"
  compton :: Model
  elastic :: Model
  mod_v :: "composite option"

text \<open>\<^verbatim>\<open>s.strip()\<close>, \<^verbatim>\<open>s.split(', ')\<close> and \<^verbatim>\<open>s.split()\<close>.\<close>

definition is_space :: "char \<Rightarrow> bool" where
  "is_space c = (c \<in> set [CHR '' '', CHR 0x09, CHR 0x0A, CHR 0x0B, CHR 0x0C, CHR 0x0D])"

definition py_strip :: "string \<Rightarrow> string" where
  "py_strip str = rev (dropWhile is_space (rev (dropWhile is_space str)))"

fun split_comma_space :: "string \<Rightarrow> string \<Rightarrow> string list" where
  "split_comma_space acc [] = [rev acc]"
| "split_comma_space acc [c] = [rev (c # acc)]"
| "split_comma_space acc (c # d # rest) =
     (if c = CHR '','' \<and> d = CHR '' '' then rev acc # split_comma_space [] rest
      else split_comma_space (c # acc) (d # rest))"

fun split_whitespace :: "string \<Rightarrow> string \<Rightarrow> string list" where
  "split_whitespace acc [] = (if acc = [] then [] else [rev acc])"
| "split_whitespace acc (c # rest) =
     (if is_space c then
        (if acc = [] then split_whitespace [] rest else rev acc # split_whitespace [] rest)
      else split_whitespace (c # acc) rest)"

text \<open>
  The first part of \<^verbatim>\<open>_config\<close>: the element list, or no attribute at all when the
  dictionary has no key \<^verbatim>\<open>element_list\<close> (the source logs and goes on).
\<close>

definition config_element_list :: "entry \<Rightarrow> string list option" where
  "config_element_list nf =
     (case nf of
        Spec d \<Rightarrow> None
      | NonFit nf \<Rightarrow>
          (case nf_element_list nf of
             None \<Rightarrow> None
           | Some str \<Rightarrow>
               Some (map py_strip
                 (if CHR '','' \<in> set str then split_comma_space [] str
                  else split_whitespace [] str))))"

text \<open>
  \<^verbatim>\<open>setComptonModel\<close> and \<^verbatim>\<open>setElasticModel\<close> run while the instance is under
  construction: the model gives them the attributes they read (the table at
  \<^verbatim>\<open>self.parameter\<close>, \<^verbatim>\<open>self.parameter_default\<close>, \<^verbatim>\<open>self.compton_param\<close>) and they
  return the attributes they assign.
\<close>

definition compton_list :: "string list" where
  "compton_list = [''coherent_sct_energy'', ''compton_amplitude'', ''compton_angle'',
     ''fwhm_offset'', ''fwhm_fanoprime'', ''e_offset'', ''e_linear'', ''e_quadratic'',
     ''compton_gamma'', ''compton_f_tail'', ''compton_f_step'', ''compton_fwhm_corr'',
     ''compton_hi_gamma'', ''compton_hi_f_tail'']"

definition table_or_default :: "ParameterTable \<Rightarrow> ParameterTable \<Rightarrow> string \<Rightarrow> error + entry" where
  "table_or_default table dflt name =
     (if map_of table name \<noteq> None then getitem (map_of table) name
      else getitem (map_of dflt) name)"

fun compton_hints :: "ParameterTable \<Rightarrow> ParameterTable \<Rightarrow> string list \<Rightarrow> Model \<Rightarrow> error + Model" where
  "compton_hints table dflt [] m = Inr m"
| "compton_hints table dflt (name # rest) m =
     ebind (table_or_default table dflt name) (\<lambda>e.
     ebind (as_spec e) (\<lambda>d.
     ebind (set_parameter_hint name d m False) (\<lambda>m.
       compton_hints table dflt rest m)))"

definition setComptonModel ::
  "boundary \<Rightarrow> ParameterTable \<Rightarrow> ParameterTable \<Rightarrow> error + ((string \<rightharpoonup> pyval) \<times> Model)" where
  "setComptonModel b table dflt =
     ebind (compton_hints table dflt compton_list
              \<lparr>prefix = [], param_hints = ComptonModel_hints b\<rparr>) (\<lambda>m.
       Inr (make_params b m, m))"

text \<open>
  \<^verbatim>\<open>m.set_param_hint(name, value=self.compton_param[name].value, expr=name)\<close>, the call
  that ties a parameter to the Compton parameter of the same name.
\<close>

definition tie_to_compton :: "(string \<rightharpoonup> pyval) \<Rightarrow> Model \<Rightarrow> string \<Rightarrow> error + Model" where
  "tie_to_compton cparam m name =
     ebind (getitem cparam name) (\<lambda>v.
       Inr (set_param_hint m name (no_hint\<lparr>hint_value := Some v, hint_expr := Some name\<rparr>)))"

definition setElasticModel ::
  "boundary \<Rightarrow> ParameterTable \<Rightarrow> ParameterTable \<Rightarrow> (string \<rightharpoonup> pyval) \<Rightarrow> error + Model" where
  "setElasticModel b table dflt cparam =
     (let m = \<lparr>prefix = ''elastic_'', param_hints = ElasticModel_hints b\<rparr>;
          item = ''coherent_sct_amplitude''
      in ebind (table_or_default table dflt item) (\<lambda>e.
         ebind (as_spec e) (\<lambda>d.
         ebind (set_parameter_hint item d m False) (\<lambda>m.
         ebind (tie_to_compton cparam m ''e_offset'') (\<lambda>m.
         ebind (tie_to_compton cparam m ''e_linear'') (\<lambda>m.
         ebind (tie_to_compton cparam m ''e_quadratic'') (\<lambda>m.
         ebind (tie_to_compton cparam m ''fwhm_offset'') (\<lambda>m.
         ebind (tie_to_compton cparam m ''fwhm_fanoprime'') (\<lambda>m.
         tie_to_compton cparam m ''coherent_sct_energy'')))))))))"

text \<open>
  \<^verbatim>\<open>_config\<close>, given the two attributes \<^verbatim>\<open>__init__\<close> has assigned, and \<^verbatim>\<open>__init__\<close>:
  \<^verbatim>\<open>self.parameter = xrf_parameter\<close> stores the address it was given.
\<close>

definition config :: "boundary \<Rightarrow> store \<Rightarrow> nat \<Rightarrow> ParameterTable \<Rightarrow> error + ModelSpectrum" where
  "config b s self_parameter self_parameter_default =
     (let table = s self_parameter in
      ebind (getitem (map_of table) ''non_fitting_values'') (\<lambda>nf.
      ebind (getitem (map_of table) ''coherent_sct_energy'') (\<lambda>e.
      ebind (as_spec e) (\<lambda>d.
      ebind (setComptonModel b table self_parameter_default) (\<lambda>cm.
      ebind (setElasticModel b table self_parameter_default (fst cm)) (\<lambda>emodel.
        Inr \<lparr>parameter = self_parameter,
             parameter_default = self_parameter_default,
             element_list = config_element_list nf,
             incident_energy = value_v d,
             compton_param = fst cm,
             compton = snd cm,
             elastic = emodel,
             mod_v = None\<rparr>))))))"

definition ModelSpectrum_init :: "boundary \<Rightarrow> store \<Rightarrow> nat \<Rightarrow> error + ModelSpectrum" where
  "ModelSpectrum_init b s xrf_parameter = config b s xrf_parameter (get_para b)"

subsection \<open>\<^verbatim>\<open>ModelSpectrum.setElementModel\<close>\<close>

text \<open>The keywords \<^verbatim>\<open>value=v, vary=b\<close> of a call of \<^verbatim>\<open>set_param_hint\<close>.\<close>

definition value_vary :: "real \<Rightarrow> bool \<Rightarrow> hint" where
  "value_vary v b = no_hint\<lparr>hint_value := Some (Num v), hint_vary := Some b\<rparr>"

text \<open>The five calls that open the body of each of the three loops.\<close>

definition global_hints :: "(string \<rightharpoonup> pyval) \<Rightarrow> Model \<Rightarrow> error + Model" where
  "global_hints cparam gauss_mod =
     ebind (tie_to_compton cparam gauss_mod ''e_offset'') (\<lambda>gauss_mod.
     ebind (tie_to_compton cparam gauss_mod ''e_linear'') (\<lambda>gauss_mod.
     ebind (tie_to_compton cparam gauss_mod ''e_quadratic'') (\<lambda>gauss_mod.
     ebind (tie_to_compton cparam gauss_mod ''fwhm_offset'') (\<lambda>gauss_mod.
     tie_to_compton cparam gauss_mod ''fwhm_fanoprime''))))"

text \<open>
  \<^verbatim>\<open>if parameter.has_key(key): _set_parameter_hint(name, parameter[key], gauss_mod,
  log_option=True)\<close>.
\<close>

definition table_hint :: "ParameterTable \<Rightarrow> string \<Rightarrow> string \<Rightarrow> Model \<Rightarrow> error + Model" where
  "table_hint table key name gauss_mod =
     (case map_of table key of
        None \<Rightarrow> Inr gauss_mod
      | Some e \<Rightarrow> ebind (as_spec e) (\<lambda>d. set_parameter_hint name d gauss_mod True))"

text \<open>
  The \<^verbatim>\<open>if\<close> on the line name in the K branch: the principal line has a free area
  and fixed shifts, \<^verbatim>\<open>ka2\<close> takes area and shifts from \<^verbatim>\<open>ka1\<close>, every other line
  takes the area from \<^verbatim>\<open>ka1\<close>.
\<close>

definition K_area_hints :: "string \<Rightarrow> string \<Rightarrow> Model \<Rightarrow> Model" where
  "K_area_hints ename line_name gauss_mod =
     (if line_name = ''ka1'' then
        (let gauss_mod = set_param_hint gauss_mod ''area''
               ((value_vary 100000 True)\<lparr>hint_min := Some (Num 0)\<rparr>);
             gauss_mod = set_param_hint gauss_mod ''delta_center'' (value_vary 0 False)
         in set_param_hint gauss_mod ''delta_sigma'' (value_vary 0 False))
      else if line_name = ''ka2'' then
        (let gauss_mod = set_param_hint gauss_mod ''area''
               ((value_vary 100000 True)\<lparr>hint_expr := Some (ename @ ''_ka1_'' @ ''area'')\<rparr>);
             gauss_mod = set_param_hint gauss_mod ''delta_sigma''
               ((value_vary 0 False)\<lparr>hint_expr := Some (ename @ ''_ka1_'' @ ''delta_sigma'')\<rparr>)
         in set_param_hint gauss_mod ''delta_center''
              ((value_vary 0 False)\<lparr>hint_expr := Some (ename @ ''_ka1_'' @ ''delta_center'')\<rparr>))
      else
        (let gauss_mod = set_param_hint gauss_mod ''area''
               ((value_vary 100000 True)\<lparr>hint_expr := Some (ename @ ''_ka1_'' @ ''area'')\<rparr>);
             gauss_mod = set_param_hint gauss_mod ''delta_center'' (value_vary 0 False)
         in set_param_hint gauss_mod ''delta_sigma'' (value_vary 0 False)))"

text \<open>The body of the loop of the K branch, for a line with a cross-section.\<close>

definition K_gauss_mod ::
  "ModelSpectrum \<Rightarrow> ParameterTable \<Rightarrow> string \<Rightarrow> Element \<Rightarrow> string \<Rightarrow> real \<Rightarrow> error + Model" where
  "K_gauss_mod self table ename e line_name val =
     ebind (global_hints (compton_param self)
              (ElementModel (ename @ ''_'' @ line_name @ ''_''))) (\<lambda>gauss_mod.
     let gauss_mod = K_area_hints ename line_name gauss_mod;
         area_name = ename @ ''_'' @ line_name @ ''_area''
     in
     ebind (table_hint table area_name area_name gauss_mod) (\<lambda>gauss_mod.
     let gauss_mod = set_param_hint gauss_mod ''center'' (value_vary val False);
         ratio_v = cs e (incident_energy self) line_name / cs e (incident_energy self) ''ka1'';
         gauss_mod = set_param_hint gauss_mod ''ratio'' (value_vary ratio_v False);
         gauss_mod = set_param_hint gauss_mod ''ratio_adjust'' (value_vary 1 False);
         pos_name = ename @ ''_'' @ line_name @ ''_delta_center''
     in
     ebind (table_hint table pos_name ''delta_center'' gauss_mod) (\<lambda>gauss_mod.
     let width_name = ename @ ''_'' @ line_name @ ''_delta_sigma'' in
     ebind (table_hint table width_name ''delta_sigma'' gauss_mod) (\<lambda>gauss_mod.
     let ratio_name = ename @ ''_'' @ line_name @ ''_ratio_adjust'' in
     table_hint table ratio_name ''ratio_adjust'' gauss_mod))))"

text \<open>
  The \<^verbatim>\<open>if\<close> on the line name in the L and M branches: the principal line
  (\<^verbatim>\<open>la1\<close>, \<^verbatim>\<open>ma1\<close>) has a free area, every other line takes the area from it.
\<close>

definition LM_area_hint :: "string \<Rightarrow> real \<Rightarrow> string \<Rightarrow> string \<Rightarrow> Model \<Rightarrow> Model" where
  "LM_area_hint pline v ename line_name gauss_mod =
     (if line_name = pline then set_param_hint gauss_mod ''area'' (value_vary v True)
      else set_param_hint gauss_mod ''area''
             ((value_vary v True)\<lparr>hint_expr := Some (ename @ ''_'' @ pline @ ''_'' @ ''area'')\<rparr>))"

text \<open>The body of the loop of the L branch; \<open>ename\<close> is the name without its suffix.\<close>

definition L_gauss_mod ::
  "ModelSpectrum \<Rightarrow> ParameterTable \<Rightarrow> string \<Rightarrow> Element \<Rightarrow> string \<Rightarrow> real \<Rightarrow> error + Model" where
  "L_gauss_mod self table ename e line_name val =
     ebind (global_hints (compton_param self)
              (ElementModel (ename @ ''_'' @ line_name @ ''_''))) (\<lambda>gauss_mod.
     let gauss_mod = LM_area_hint ''la1'' 100000 ename line_name gauss_mod;
         gauss_mod = set_param_hint gauss_mod ''center'' (value_vary val False);
         gauss_mod = set_param_hint gauss_mod ''sigma'' (value_vary 1 False);
         gauss_mod = set_param_hint gauss_mod ''ratio''
           (value_vary (cs e (incident_energy self) line_name / cs e (incident_energy self) ''la1'')
              False);
         gauss_mod = set_param_hint gauss_mod ''delta_center'' (value_vary 0 False);
         gauss_mod = set_param_hint gauss_mod ''delta_sigma'' (value_vary 0 False);
         gauss_mod = set_param_hint gauss_mod ''ratio_adjust'' (value_vary 1 False);
         pos_name = ename @ ''_'' @ line_name @ ''_delta_center''
     in
     ebind (table_hint table pos_name ''delta_center'' gauss_mod) (\<lambda>gauss_mod.
     let width_name = ename @ ''_'' @ line_name @ ''_delta_sigma'' in
     ebind (table_hint table width_name ''delta_sigma'' gauss_mod) (\<lambda>gauss_mod.
     let ratio_name = ename @ ''_'' @ line_name @ ''_ratio_adjust'' in
     table_hint table ratio_name ''ratio_adjust'' gauss_mod)))"

text \<open>The body of the loop of the M branch.\<close>

definition M_gauss_mod ::
  "ModelSpectrum \<Rightarrow> string \<Rightarrow> string \<Rightarrow> real \<Rightarrow> error + Model" where
  "M_gauss_mod self ename line_name val =
     ebind (global_hints (compton_param self)
              (ElementModel (ename @ ''_'' @ line_name @ ''_''))) (\<lambda>gauss_mod.
     let gauss_mod = LM_area_hint ''ma1'' 100 ename line_name gauss_mod;
         gauss_mod = set_param_hint gauss_mod ''center'' (value_vary val False);
         gauss_mod = set_param_hint gauss_mod ''sigma'' (value_vary 1 False);
         gauss_mod = set_param_hint gauss_mod ''ratio'' (value_vary 0.1 False);
         gauss_mod = set_param_hint gauss_mod ''delta_center'' (value_vary 0 False);
         gauss_mod = set_param_hint gauss_mod ''delta_sigma'' (value_vary 0 False)
     in Inr (set_param_hint gauss_mod ''ratio_adjust'' (value_vary 1 False)))"

text \<open>
  The loop over the lines of an element, common to the three branches: a line without
  cross-section is skipped; the model of any other line is added to \<^verbatim>\<open>element_mod\<close>,
  or becomes it when it is still None.
\<close>

fun lines_loop ::
  "boundary \<Rightarrow> (string \<Rightarrow> real) \<Rightarrow> (string \<Rightarrow> real \<Rightarrow> error + Model) \<Rightarrow> (string \<times> real) list
     \<Rightarrow> composite option \<Rightarrow> error + composite option" where
  "lines_loop b cross body [] element_mod = Inr element_mod"
| "lines_loop b cross body (item # rest) element_mod =
     (let line_name = fst item; val = snd item in
      if cross line_name = 0 then lines_loop b cross body rest element_mod
      else
        ebind (body line_name val) (\<lambda>gauss_mod.
        ebind (case element_mod of
                 Some m \<Rightarrow> model_add b m [gauss_mod]
               | None \<Rightarrow> Inr [gauss_mod]) (\<lambda>m.
          lines_loop b cross body rest (Some m))))"

definition setElementModel ::
  "boundary \<Rightarrow> store \<Rightarrow> ModelSpectrum \<Rightarrow> string \<Rightarrow> error + composite option" where
  "setElementModel b s self ename =
     (let table = s (parameter self) in
      if ename \<in> set k_line then
        (let e = XrfElement b ename in
         if cs e (incident_energy self) ''ka1'' = 0 then Inr None
         else lines_loop b (cs e (incident_energy self)) (K_gauss_mod self table ename e)
                (take 4 (emission_line_all e)) None)
      else if ename \<in> set l_line then
        (let ename = take (length ename - 2) ename;
             e = XrfElement b ename;
             lines = emission_line_all e in
         if cs e (incident_energy self) ''la1'' = 0 then Inr None
         else lines_loop b (cs e (incident_energy self)) (L_gauss_mod self table ename e)
                (drop 4 (take (length lines - 4) lines)) None)
      else if ename \<in> set m_line then
        (let ename = take (length ename - 2) ename;
             e = XrfElement b ename;
             lines = emission_line_all e in
         if cs e (incident_energy self) ''ma1'' = 0 then Inr None
         else lines_loop b (cs e (incident_energy self)) (M_gauss_mod self ename)
                (drop (length lines - 4) lines) None)
      else Inr None)"

subsection \<open>\<^verbatim>\<open>ModelSpectrum.model_spectrum\<close>\<close>

text \<open>
  \<^verbatim>\<open>self.mod += self.setElementModel(ename)\<close> adds whatever \<^verbatim>\<open>setElementModel\<close>
  returned; when that is None, lmfit's \<^verbatim>\<open>+\<close> raises. The loop reads
  \<^verbatim>\<open>self.element_list\<close>, which raises AttributeError when \<^verbatim>\<open>_config\<close> did not assign it.
\<close>

fun spectrum_loop ::
  "boundary \<Rightarrow> store \<Rightarrow> ModelSpectrum \<Rightarrow> string list \<Rightarrow> composite \<Rightarrow> error + composite" where
  "spectrum_loop b s self [] m = Inr m"
| "spectrum_loop b s self (ename # rest) m =
     ebind (setElementModel b s self ename) (\<lambda>element_mod.
       case element_mod of
         None \<Rightarrow> Inl TypeError
       | Some g \<Rightarrow> ebind (model_add b m g) (\<lambda>m. spectrum_loop b s self rest m))"

definition model_spectrum :: "boundary \<Rightarrow> store \<Rightarrow> ModelSpectrum \<Rightarrow> error + ModelSpectrum" where
  "model_spectrum b s self =
     ebind (model_add b [compton self] [elastic self]) (\<lambda>m.
       case element_list self of
         None \<Rightarrow> Inl AttributeError
       | Some names \<Rightarrow>
           ebind (spectrum_loop b s self names m) (\<lambda>m. Inr (self\<lparr>mod_v := Some m\<rparr>)))"

text \<open>
  \<^verbatim>\<open>get_linear_model\<close> calls \<^verbatim>\<open>setElementModel\<close> for every element as well, and keeps
  an element only \<^verbatim>\<open>if e_model\<close>, that is when a model came back. The list
  \<^verbatim>\<open>e_select\<close> it returns (the matrix is evaluated by lmfit) is modelled here.
\<close>

fun select_elements ::
  "boundary \<Rightarrow> store \<Rightarrow> ModelSpectrum \<Rightarrow> string list \<Rightarrow> error + string list" where
  "select_elements b s MS [] = Inr []"
| "select_elements b s MS (name # rest) =
     ebind (setElementModel b s MS name) (\<lambda>e_model.
     ebind (select_elements b s MS rest) (\<lambda>e_select.
       Inr (case e_model of None \<Rightarrow> e_select | Some g \<Rightarrow> name # e_select)))"

definition get_linear_model_e_select :: "boundary \<Rightarrow> store \<Rightarrow> nat \<Rightarrow> error + string list" where
  "get_linear_model_e_select b s param_dict =
     ebind (ModelSpectrum_init b s param_dict) (\<lambda>MS.
       case element_list MS of
         None \<Rightarrow> Inl AttributeError
       | Some elist \<Rightarrow> select_elements b s MS elist)"

subsection \<open>Symbolic ties\<close>

text \<open>
  A parameter of a model is tied to the Compton parameter of the same name when its
  expression hint is that name: the Compton model has no prefix, so in the composite
  the name denotes the Compton model's parameter.
\<close>

definition tied :: "Model \<Rightarrow> string \<Rightarrow> bool" where
  "tied m name = (hint_expr (hints_of m name) = Some name)"

definition elastic_globals :: "string list" where
  "elastic_globals = [''e_offset'', ''e_linear'', ''e_quadratic'', ''fwhm_offset'',
     ''fwhm_fanoprime'', ''coherent_sct_energy'']"

definition element_globals :: "string list" where
  "element_globals = [''e_offset'', ''e_linear'', ''e_quadratic'', ''fwhm_offset'',
     ''fwhm_fanoprime'']"

definition globals_tied :: "Model \<Rightarrow> bool" where
  "globals_tied m = list_all (tied m) element_globals"

text \<open>
  The same for a model with a given prefix, as the proofs about the loop bodies carry
  it, and the bound types \<^verbatim>\<open>_set_parameter_hint\<close> accepts.
\<close>

definition globals_tied_p :: "string \<Rightarrow> Model \<Rightarrow> bool" where
  "globals_tied_p p m \<longleftrightarrow> prefix m = p \<and> (\<forall>x\<in>set element_globals. tied m x)"

definition ok_spec :: "ParameterSpec \<Rightarrow> bool" where
  "ok_spec d = (bound_type d \<in> set [Str ''none'', Str ''fixed'', Str ''lohi'', Str ''lo'', Str ''hi''])"

subsection \<open>Example inputs\<close>

definition ex_spec_hi :: ParameterSpec where
  "ex_spec_hi = \<lparr>bound_type = Str ''hi'', value_v = Num 1, min_v = Num 0, max_v = Num 5,
     free_more = Str ''fixed'', adjust_element = Str ''fixed'', e_calibration = Str ''fixed'',
     linear_v = Str ''fixed''\<rparr>"

definition ex_window :: ParameterTable where
  "ex_window = [(''non_fitting_values'',
      NonFit \<lparr>nf_element_list = None, nf_energy_bound_low = Some 2,
        nf_energy_bound_high = Some 10\<rparr>)]"

definition ex_Fe_spec :: ParameterSpec where
  "ex_Fe_spec = \<lparr>bound_type = Str ''lohi'', value_v = Num 5, min_v = Num 1, max_v = Num 10,
     free_more = Str ''lohi'', adjust_element = Str ''fixed'', e_calibration = Str ''fixed'',
     linear_v = Str ''lohi''\<rparr>"

definition ex_Fe_table :: ParameterTable where
  "ex_Fe_table = [(''Fe_ka1_area'', Spec ex_Fe_spec), (''Fe_ka2_area'', Spec ex_Fe_spec)]"

text \<open>
  A boundary for the examples: every default is a fixed parameter, every element has
  three K lines (energies in eV) that are excited above 7112 eV, every parameter of a
  model has a value, and two models are compatible when no prefix occurs in both. The
  table holds the incident energy and the element list, and lives at address 0.
\<close>

definition ex_spec_fixed :: "real \<Rightarrow> ParameterSpec" where
  "ex_spec_fixed v = \<lparr>bound_type = Str ''fixed'', value_v = Num v, min_v = Num 0, max_v = Num 0,
     free_more = Str ''none'', adjust_element = Str ''fixed'', e_calibration = Str ''fixed'',
     linear_v = Str ''fixed''\<rparr>"

definition ex_default :: ParameterTable where
  "ex_default = map (\<lambda>name. (name, Spec (ex_spec_fixed 1)))
     (compton_list @ [''coherent_sct_amplitude''])"

definition ex_element :: Element where
  "ex_element = \<lparr>emission_line_all = [(''ka1'', 6404), (''ka2'', 6391), (''kb1'', 7058)],
     cs = (\<lambda>energy line. case energy of Num x \<Rightarrow> if 7112 < x then 1 else 0 | Str x \<Rightarrow> 0)\<rparr>"

definition ex_boundary :: boundary where
  "ex_boundary = \<lparr>get_para = ex_default, XrfElement = (\<lambda>name. ex_element),
     ComptonModel_hints = Map.empty, ElasticModel_hints = Map.empty,
     make_params = (\<lambda>m name. Some (case hint_value (hints_of m name) of None \<Rightarrow> Num 0 | Some v \<Rightarrow> v)),
     compatible = (\<lambda>left right. set (map prefix left) \<inter> set (map prefix right) = {})\<rparr>"

definition ex_table :: "real \<Rightarrow> string option \<Rightarrow> ParameterTable" where
  "ex_table energy elements =
     [(''non_fitting_values'', NonFit \<lparr>nf_element_list = elements, nf_energy_bound_low = Some 2,
         nf_energy_bound_high = Some 10\<rparr>),
      (''coherent_sct_energy'', Spec (ex_spec_fixed energy))]"

definition ex_store :: "ParameterTable \<Rightarrow> store" where
  "ex_store t = (\<lambda>a. [])(0 := t)"

section \<open>Properties\<close>

subsection \<open>Helper lemmas\<close>

lemma ebind_Inr: "ebind m f = Inr y \<longleftrightarrow> (\<exists>x. m = Inr x \<and> f x = Inr y)"
  by (cases m) auto

lemma emap_all_Inr:
  "(\<And>x. x \<in> set xs \<Longrightarrow> f x = Inr (g x)) \<Longrightarrow> emap f xs = Inr (map g xs)"
  by (induction xs) auto

lemma emap_some_Inl:
  assumes "x \<in> set xs" "f x = Inl e"
    and same: "\<And>y e'. f y = Inl e' \<Longrightarrow> e' = e"
  shows "emap f xs = Inl e"
  using assms(1)
proof (induction xs)
  case Nil
  then show ?case by simp
next
  case (Cons a xs)
  show ?case
  proof (cases "f a")
    case (Inl e')
    then have "e' = e" by (rule same)
    with Inl show ?thesis by simp
  next
    case (Inr v)
    with assms(2) have "x \<noteq> a" by auto
    with Cons.prems have "x \<in> set xs" by simp
    then have "emap f xs = Inl e" by (rule Cons.IH)
    with Inr show ?thesis by simp
  qed
qed

lemma Fe_in_k_line: "''Fe'' \<in> set k_line"
  by (simp add: k_line_def)

subsection \<open>The weights of the weighted pre-fit\<close>

lemma fold_max_Max: "fold max xs (x::real) = Max (set (x # xs))"
  by (rule Max.set_eq_fold[symmetric])

lemma weight_pos: "e \<noteq> -1 \<Longrightarrow> 0 < \<bar>1 / (1 + e :: real)\<bar>"
proof -
  assume "e \<noteq> -1"
  then have "1 + e \<noteq> 0" by linarith
  then show ?thesis by simp
qed

lemma raw_weights_ok:
  assumes that: "\<forall>e\<in>set experiments. e \<noteq> -1"
  shows "raw_weights experiments = Inr (map (\<lambda>e. 1 / (1 + e)) experiments)"
  unfolding raw_weights_def
proof (rule emap_all_Inr)
  fix x assume "x \<in> set experiments"
  then have "x \<noteq> -1" using that by blast
  then have "1 + x \<noteq> 0" by linarith
  then show "np_divide 1 (1 + x) = Inr (1 / (1 + x))" by (simp add: np_divide_def)
qed

lemma raw_weights_div0:
  "-1 \<in> set experiments \<Longrightarrow> raw_weights experiments = Inl DivideByZero"
proof -
  assume m: "-1 \<in> set experiments"
  have z: "np_divide 1 (1 + (-1)) = Inl DivideByZero" by (simp add: np_divide_def)
  have u: "\<And>y e'. np_divide 1 (1 + y) = Inl e' \<Longrightarrow> e' = DivideByZero"
    by (simp add: np_divide_def split: if_splits)
  show ?thesis
    unfolding raw_weights_def
    by (rule emap_some_Inl[where x = "-1" and f = "\<lambda>e. np_divide 1 (1 + e)", OF m z u])
qed

lemma py_max_pos:
  assumes "ws \<noteq> []" "\<forall>w\<in>set ws. 0 < w"
  shows "\<exists>m. py_max ws = Inr m \<and> 0 < m \<and> (\<forall>w\<in>set ws. w \<le> m)"
proof (cases ws)
  case Nil
  with assms show ?thesis by simp
next
  case (Cons x xs)
  have "py_max ws = Inr (Max (set ws))" using Cons by (simp add: fold_max_Max del: set_simps)
  moreover have "\<forall>w\<in>set ws. w \<le> Max (set ws)" by simp
  moreover have "0 < Max (set ws)"
  proof -
    have "Max (set ws) \<in> set ws" using assms(1) by (intro Max_in) auto
    then show ?thesis using assms(2) by blast
  qed
  ultimately show ?thesis by blast
qed

lemma normalized_weights_ok:
  assumes "\<forall>e\<in>set experiments. e \<noteq> -1" "experiments \<noteq> []"
  shows "\<exists>m. 0 < m \<and> (\<forall>e\<in>set experiments. \<bar>1 / (1 + e)\<bar> \<le> m) \<and>
     normalized_weights experiments = Inr (map (\<lambda>e. \<bar>1 / (1 + e)\<bar> / m) experiments)"
proof -
  let ?ws = "map abs (map (\<lambda>e. 1 / (1 + e)) experiments)"
  have pos: "\<forall>w\<in>set ?ws. 0 < w" using assms(1) weight_pos by auto
  have ne: "?ws \<noteq> []" using assms(2) by simp
  from py_max_pos[OF ne pos] obtain m where m: "py_max ?ws = Inr m" "0 < m" "\<forall>w\<in>set ?ws. w \<le> m"
    by blast
  have "emap (\<lambda>w. np_divide w m) ?ws = Inr (map (\<lambda>w. w / m) ?ws)"
    by (rule emap_all_Inr) (use m(2) in \<open>auto simp: np_divide_def\<close>)
  then have "normalized_weights experiments = Inr (map (\<lambda>w. w / m) ?ws)"
    using raw_weights_ok[OF assms(1)] m(1) by (simp add: normalized_weights_def)
  moreover have "map (\<lambda>w. w / m) ?ws = map (\<lambda>e. \<bar>1 / (1 + e)\<bar> / m) experiments"
    by (simp add: comp_def)
  ultimately show ?thesis using m(2,3) by auto
qed

lemma normalized_weights_div0:
  "-1 \<in> set experiments \<Longrightarrow> normalized_weights experiments = Inl DivideByZero"
  by (simp add: normalized_weights_def raw_weights_div0)

text \<open>
  C10. \<^verbatim>\<open>nnls_fit_weight\<close> computes the weights \<open>1 / (1 + experiments)\<close> without a
  guard. When no entry of \<open>experiments\<close> is \<open>-1\<close>, line 884 divides by no zero and
  yields \<open>1 / (1 + e)\<close> for every entry, and the normalized weight of every entry that
  is at least \<open>0\<close> lies in \<open>(0, 1]\<close>. When an entry is \<open>-1\<close>, the computation divides
  by zero, in line 884 and so in the method as a whole. (On the empty vector, which has
  no entry, line 884 yields the empty array and \<^verbatim>\<open>max\<close> in line 886 raises ValueError.)
\<close>

theorem nnls_fit_weight_weights:
  "((\<forall>e\<in>set experiments. e \<noteq> -1) \<longrightarrow>
       raw_weights experiments = Inr (map (\<lambda>e. 1 / (1 + e)) experiments) \<and>
       (\<forall>i < length experiments. 0 \<le> experiments ! i \<longrightarrow>
          (\<exists>ws. normalized_weights experiments = Inr ws \<and> length ws = length experiments \<and>
                0 < ws ! i \<and> ws ! i \<le> 1))) \<and>
   (-1 \<in> set experiments \<longrightarrow>
       raw_weights experiments = Inl DivideByZero \<and>
       normalized_weights experiments = Inl DivideByZero \<and>
       nnls_fit_weight nnls standard experiments = Inl DivideByZero)"
proof (intro conjI impI allI)
  assume a: "\<forall>e\<in>set experiments. e \<noteq> -1"
  show "raw_weights experiments = Inr (map (\<lambda>e. 1 / (1 + e)) experiments)"
    by (rule raw_weights_ok[OF a])
  fix i assume i: "i < length experiments" "0 \<le> experiments ! i"
  then have ne: "experiments \<noteq> []" by auto
  from normalized_weights_ok[OF a ne] obtain m where m: "0 < m"
    "\<forall>e\<in>set experiments. \<bar>1 / (1 + e)\<bar> \<le> m"
    "normalized_weights experiments = Inr (map (\<lambda>e. \<bar>1 / (1 + e)\<bar> / m) experiments)"
    by blast
  let ?e = "experiments ! i"
  have mem: "?e \<in> set experiments" using i(1) by simp
  have "?e \<noteq> -1" using a mem by blast
  then have "0 < \<bar>1 / (1 + ?e)\<bar>" by (rule weight_pos)
  moreover have "\<bar>1 / (1 + ?e)\<bar> \<le> m" using m(2) mem by blast
  ultimately have "0 < \<bar>1 / (1 + ?e)\<bar> / m \<and> \<bar>1 / (1 + ?e)\<bar> / m \<le> 1"
    using m(1) by (simp only: zero_less_divide_iff divide_le_eq_1_pos) simp
  then show "\<exists>ws. normalized_weights experiments = Inr ws \<and> length ws = length experiments \<and>
                0 < ws ! i \<and> ws ! i \<le> 1"
    using m(3) i(1) by simp
next
  assume "-1 \<in> set experiments"
  then show "raw_weights experiments = Inl DivideByZero" by (rule raw_weights_div0)
next
  assume "-1 \<in> set experiments"
  then show "normalized_weights experiments = Inl DivideByZero" by (rule normalized_weights_div0)
next
  assume "-1 \<in> set experiments"
  then show "nnls_fit_weight nnls standard experiments = Inl DivideByZero"
    by (simp add: nnls_fit_weight_def normalized_weights_div0)
qed

text \<open>
  The theorem at the spectrum \<open>[0, 3]\<close>, whose weights are \<open>1\<close> and \<open>1/4\<close>, and at
  \<open>[3, -1]\<close>.
\<close>

theorem nnls_fit_weight_weights_witness:
  "raw_weights [0, 3] = Inr [1, 1 / 4] \<and>
   (\<exists>ws. normalized_weights [0, 3] = Inr ws \<and> length ws = 2 \<and> 0 < ws ! 1 \<and> ws ! 1 \<le> 1) \<and>
   raw_weights [3, -1] = Inl DivideByZero \<and>
   nnls_fit_weight (\<lambda>a b. Inr (b, 0)) [[1], [1]] [3, -1] = Inl DivideByZero"
proof -
  have a: "\<forall>e\<in>set [0, 3 :: real]. e \<noteq> -1" by simp
  have b: "-1 \<in> set [3, -1 :: real]" by simp
  have c: "(1::nat) < length [0, 3 :: real]" "0 \<le> [0, 3 :: real] ! 1" by simp_all
  from nnls_fit_weight_weights[of "[0, 3]"] a c
  have 1: "raw_weights [0, 3] = Inr [1, 1 / 4]"
    and 2: "\<exists>ws. normalized_weights [0, 3] = Inr ws \<and> length ws = 2 \<and> 0 < ws ! 1 \<and> ws ! 1 \<le> 1"
    by auto
  from nnls_fit_weight_weights[of "[3, -1]" "\<lambda>a b. Inr (b, 0)" "[[1], [1]]"] b
  have 3: "raw_weights [3, -1] = Inl DivideByZero"
    and 4: "nnls_fit_weight (\<lambda>a b. Inr (b, 0)) [[1], [1]] [3, -1] = Inl DivideByZero"
    by auto
  from 1 2 3 4 show ?thesis by blast
qed

subsection \<open>The per-line peak\<close>

text \<open>
  C3. With \<open>delta_center = 0\<close>, \<open>delta_sigma = 0\<close>, \<open>e_offset = 0\<close>, \<open>e_linear = 1\<close> and
  \<open>e_quadratic = 0\<close>, and \<open>epsilon\<close> at its default, \<^verbatim>\<open>element_peak_xrf\<close> is the
  Gaussian of \<open>(x, area, center, sigma)\<close> with
  \<open>sigma = sqrt ((fwhm_offset / (2 * sqrt (2 * ln 2)))\<^sup>2 + center * 2.96 * fwhm_fanoprime)\<close>,
  multiplied by \<open>ratio * ratio_adjust\<close>, for every array \<open>x\<close> and all values of the
  other parameters.
\<close>

theorem element_peak_xrf_reduces:
  "element_peak_xrf gaussian x area center 0 0 ratio ratio_adjust fwhm_offset fwhm_fanoprime
       0 1 0 epsilon_default =
     map (\<lambda>g. g * (ratio * ratio_adjust))
       (gaussian x area center
          (sqrt ((fwhm_offset / (2 * sqrt (2 * ln 2)))\<^sup>2 + center * 2.96 * fwhm_fanoprime)))"
  by (simp add: element_peak_xrf_def get_sigma_def epsilon_default_def mult.assoc)

subsection \<open>The fitted-area aggregator\<close>

text \<open>
  C4. For every element name that is not in the K-series list, \<^verbatim>\<open>get_sum_area\<close>
  raises (the accumulator was never assigned: UnboundLocalError) whatever the fit
  result holds; it returns no number.
\<close>

theorem get_sum_area_not_K:
  "ename \<notin> set k_line \<Longrightarrow>
     get_sum_area ename result_values = Inl UnboundLocalError \<and>
     (\<forall>total. get_sum_area ename result_values \<noteq> Inr total)"
  by (simp add: get_sum_area_def)

theorem get_sum_area_not_K_witness:
  "''Ga_L'' \<notin> set k_line \<and> ''Au_M'' \<notin> set k_line \<and>
   get_sum_area ''Ga_L''
     [''Ga_la1_area'' \<mapsto> 100, ''Ga_la1_ratio'' \<mapsto> 1, ''Ga_la1_ratio_adjust'' \<mapsto> 1]
     = Inl UnboundLocalError \<and>
   get_sum_area ''Au_M'' Map.empty = Inl UnboundLocalError"
proof -
  have a: "''Ga_L'' \<notin> set k_line" by (simp add: k_line_def)
  have b: "''Au_M'' \<notin> set k_line" by (simp add: k_line_def)
  show ?thesis
    using a b get_sum_area_not_K[OF a] get_sum_area_not_K[OF b] by simp
qed

text \<open>The K branch on the example of the spec: three lines, no \<^verbatim>\<open>kb2\<close>.\<close>

lemma get_sum_area_Fe_example:
  "get_sum_area ''Fe'' [''Fe_ka1_area'' \<mapsto> 100, ''Fe_ka1_ratio'' \<mapsto> 1, ''Fe_ka1_ratio_adjust'' \<mapsto> 1,
      ''Fe_ka2_area'' \<mapsto> 50, ''Fe_ka2_ratio'' \<mapsto> 1, ''Fe_ka2_ratio_adjust'' \<mapsto> 1,
      ''Fe_kb1_area'' \<mapsto> 20, ''Fe_kb1_ratio'' \<mapsto> 1, ''Fe_kb1_ratio_adjust'' \<mapsto> 1] = Inr 170"
  by (simp add: get_sum_area_def get_value_def getitem_def Fe_in_k_line)

subsection \<open>The energy window\<close>

text \<open>
  C9. For every table that holds the two bounds, and all sequences \<open>x1\<close> and \<open>y1\<close>,
  \<^verbatim>\<open>set_range\<close> returns two arrays of equal length that hold, in their original order,
  exactly the pairs \<open>(x, y)\<close> of \<open>x1\<close> and \<open>y1\<close> with
  \<open>energy_bound_low * 100 < x < energy_bound_high * 100\<close>, both bounds excluded.
\<close>

theorem set_range_window:
  assumes "map_of table ''non_fitting_values'' = Some (NonFit nf)"
    and "nf_energy_bound_low nf = Some low" and "nf_energy_bound_high nf = Some high"
  shows "\<exists>x0 y0. set_range table x1 y1 = Inr (x0, y0) \<and> length x0 = length y0 \<and>
     zip x0 y0 = filter (\<lambda>(x, y). low * 100 < x \<and> x < high * 100) (zip x1 y1)"
proof -
  let ?P = "\<lambda>item :: real \<times> 'a. fst item > low * 100 \<and> fst item < high * 100"
  have "set_range table x1 y1 =
      Inr (map fst (filter ?P (zip x1 y1)), map snd (filter ?P (zip x1 y1)))"
    using assms by (simp add: set_range_def getitem_def nf_getitem_def Let_def)
  moreover have "zip (map fst (filter ?P (zip x1 y1))) (map snd (filter ?P (zip x1 y1)))
      = filter ?P (zip x1 y1)"
    by (simp add: zip_map_fst_snd)
  moreover have "?P = (\<lambda>(x, y). low * 100 < x \<and> x < high * 100)" by auto
  ultimately show ?thesis by simp
qed

text \<open>
  With the bounds \<open>2\<close> and \<open>10\<close> the window is \<open>(200, 1000)\<close>: of the channels
  \<open>150, 200, 250, 1000, 1100\<close> only \<open>250\<close> is kept; \<open>200\<close> and \<open>1000\<close> lie on the
  bounds and are dropped.
\<close>

theorem set_range_window_witness:
  "set_range ex_window [150, 200, 250, 1000, 1100] [''a'', ''b'', ''c'', ''d'', ''e'']
     = Inr ([250], [''c''])"
proof -
  have a: "map_of ex_window ''non_fitting_values'' = Some (NonFit \<lparr>nf_element_list = None,
      nf_energy_bound_low = Some 2, nf_energy_bound_high = Some 10\<rparr>)"
    by (simp add: ex_window_def)
  from set_range_window[OF a, of 2 10 "[150, 200, 250, 1000, 1100]" "[''a'', ''b'', ''c'', ''d'', ''e'']"]
  obtain x0 y0 where r:
    "set_range ex_window [150, 200, 250, 1000, 1100] [''a'', ''b'', ''c'', ''d'', ''e''] = Inr (x0, y0)"
    "length x0 = length y0" "zip x0 y0 = [(250, ''c'')]"
    by auto
  from r(2,3) have "x0 = [250] \<and> y0 = [''c'']"
    by (cases x0; cases y0) auto
  with r(1) show ?thesis by simp
qed

subsection \<open>The parameter-hint translation\<close>

text \<open>
  C1. For every ParameterSpec with \<^verbatim>\<open>bound_type\<close> \<open>hi\<close>, \<^verbatim>\<open>_set_parameter_hint\<close>
  succeeds and leaves the target parameter free (\<open>vary\<close> true), with the spec's
  \<^verbatim>\<open>value\<close> as its initial value and the spec's \<^verbatim>\<open>max\<close> as its lower bound. It sets no
  upper bound: the \<open>max\<close> hint of the parameter is what it was before the call (none
  for a parameter without hints), and so is its expression; the hints of every other
  parameter and the prefix are unchanged.
\<close>

theorem set_parameter_hint_hi:
  assumes "bound_type input_dict = Str ''hi''"
  shows "\<exists>m'. set_parameter_hint para_name input_dict input_model log_option = Inr m' \<and>
     prefix m' = prefix input_model \<and>
     (let name = strip_prefix (prefix input_model) para_name
      in hint_vary (hints_of m' name) = Some True \<and>
         hint_value (hints_of m' name) = Some (value_v input_dict) \<and>
         hint_min (hints_of m' name) = Some (max_v input_dict) \<and>
         hint_max (hints_of m' name) = hint_max (hints_of input_model name) \<and>
         hint_expr (hints_of m' name) = hint_expr (hints_of input_model name) \<and>
         (\<forall>other. other \<noteq> name \<longrightarrow> param_hints m' other = param_hints input_model other))"
  using assms
  by (simp add: set_parameter_hint_def set_param_hint_def hints_of_def merge_hint_def keep_def
      no_hint_def Let_def)

theorem set_parameter_hint_hi_witness:
  "bound_type ex_spec_hi = Str ''hi'' \<and>
   (\<exists>m'. set_parameter_hint ''compton_amplitude'' ex_spec_hi
            \<lparr>prefix = [], param_hints = Map.empty\<rparr> False = Inr m' \<and>
      hint_vary (hints_of m' ''compton_amplitude'') = Some True \<and>
      hint_value (hints_of m' ''compton_amplitude'') = Some (Num 1) \<and>
      hint_min (hints_of m' ''compton_amplitude'') = Some (Num 5) \<and>
      hint_max (hints_of m' ''compton_amplitude'') = None)"
proof -
  have h: "bound_type ex_spec_hi = Str ''hi''" by (simp add: ex_spec_hi_def)
  show ?thesis
    using h set_parameter_hint_hi[OF h, of "''compton_amplitude''"
        "\<lparr>prefix = [], param_hints = Map.empty\<rparr>" False]
    by (auto simp: Let_def strip_prefix_def hints_of_def no_hint_def ex_spec_hi_def)
qed

subsection \<open>The per-element bound controller\<close>

text \<open>
  C8, as amended. \<^verbatim>\<open>set_val(["Fe"], area="lohi")\<close> on a controller built from any
  table succeeds and returns the controller's table, in which the entry
  \<^verbatim>\<open>Fe_ka1_area\<close> is the area template of \<^verbatim>\<open>element_dict\<close> with \<^verbatim>\<open>adjust_element\<close> set
  to \<open>lohi\<close>, whatever the table held under that name; every other entry is the one
  of the table the controller was built from.
\<close>

theorem set_val_area_lohi:
  "\<exists>self'. set_val (ElementController_init xrf_parameter fit_name) [''Fe''] [(''area'', ''lohi'')]
       = Inr (self', new_parameter self') \<and>
     map_of (new_parameter self') ''Fe_ka1_area''
       = Some (Spec (element_dict_area\<lparr>adjust_element := Str ''lohi''\<rparr>)) \<and>
     (\<forall>name. name \<noteq> ''Fe_ka1_area'' \<longrightarrow>
        map_of (new_parameter self') name = map_of xrf_parameter name)"
  by (simp add: set_area_def Fe_in_k_line update_K_lines_def with_option_def
      ElementController_init_def update_conv')

theorem set_val_area_lohi_witness:
  "\<exists>self'. set_val (ElementController_init ex_Fe_table [''Fe_ka1_area'']) [''Fe'']
        [(''area'', ''lohi'')] = Inr (self', new_parameter self') \<and>
     map_of (new_parameter self') ''Fe_ka1_area''
       = Some (Spec (element_dict_area\<lparr>adjust_element := Str ''lohi''\<rparr>)) \<and>
     map_of (new_parameter self') ''Fe_ka2_area'' = Some (Spec ex_Fe_spec) \<and>
     map_of (new_parameter self') ''Fe_kb1_area'' = None"
proof -
  have a: "''Fe_ka2_area'' \<noteq> ''Fe_ka1_area''" "''Fe_kb1_area'' \<noteq> ''Fe_ka1_area''" by simp_all
  have b: "map_of ex_Fe_table ''Fe_ka2_area'' = Some (Spec ex_Fe_spec)"
    "map_of ex_Fe_table ''Fe_kb1_area'' = None"
    by (simp_all add: ex_Fe_table_def)
  from set_val_area_lohi[of ex_Fe_table "[''Fe_ka1_area'']"] a b show ?thesis
    by metis
qed

text \<open>
  The claim as stated fails where the table already holds \<^verbatim>\<open>Fe_ka1_area\<close>: its other
  fields are not kept. In the example the entry had the value \<open>5\<close> and the bound type
  \<open>lohi\<close>; afterwards it has the template's value \<open>1000\<close> and bound type \<open>none\<close>.
\<close>

theorem set_val_area_lohi_counterexample:
  "map_of ex_Fe_table ''Fe_ka1_area'' = Some (Spec ex_Fe_spec) \<and>
   set_val (ElementController_init ex_Fe_table [''Fe_ka1_area'']) [''Fe''] [(''area'', ''lohi'')]
     = Inr (\<lparr>new_parameter =
               [(''Fe_ka1_area'', Spec (element_dict_area\<lparr>adjust_element := Str ''lohi''\<rparr>)),
                (''Fe_ka2_area'', Spec ex_Fe_spec)],
             element_name = [''Fe_ka1'']\<rparr>,
            [(''Fe_ka1_area'', Spec (element_dict_area\<lparr>adjust_element := Str ''lohi''\<rparr>)),
             (''Fe_ka2_area'', Spec ex_Fe_spec)]) \<and>
   element_dict_area\<lparr>adjust_element := Str ''lohi''\<rparr> \<noteq> ex_Fe_spec\<lparr>adjust_element := Str ''lohi''\<rparr> \<and>
   value_v ex_Fe_spec = Num 5 \<and>
   value_v (element_dict_area\<lparr>adjust_element := Str ''lohi''\<rparr>) = Num 1000 \<and>
   bound_type ex_Fe_spec = Str ''lohi'' \<and>
   bound_type (element_dict_area\<lparr>adjust_element := Str ''lohi''\<rparr>) = Str ''none''"
  by (simp add: set_area_def Fe_in_k_line update_K_lines_def with_option_def
      ElementController_init_def ex_Fe_table_def element_dict_area_def ex_Fe_spec_def)

subsection \<open>Hints and ties: what the calls of \<^verbatim>\<open>set_param_hint\<close> keep\<close>

lemma prefix_set_param_hint: "prefix (set_param_hint m n kw) = prefix m"
  by (simp add: set_param_hint_def Let_def)

lemma hints_of_set_param_hint:
  "hints_of (set_param_hint m n kw) x =
     (if x = strip_prefix (prefix m) n then merge_hint (hints_of m x) kw else hints_of m x)"
  by (simp add: set_param_hint_def hints_of_def Let_def)

lemma tied_set_param_hint_keep:
  "tied m x \<Longrightarrow> hint_expr kw = None \<or> strip_prefix (prefix m) n \<noteq> x
     \<Longrightarrow> tied (set_param_hint m n kw) x"
  by (auto simp: tied_def hints_of_set_param_hint merge_hint_def keep_def)

lemma tied_set_param_hint_new:
  "hint_expr kw = Some (strip_prefix (prefix m) n) \<Longrightarrow> tied (set_param_hint m n kw) (strip_prefix (prefix m) n)"
  by (simp add: tied_def hints_of_set_param_hint merge_hint_def keep_def)

lemma prefix_set_parameter_hint: "set_parameter_hint n d m l = Inr m' \<Longrightarrow> prefix m' = prefix m"
  by (auto simp: set_parameter_hint_def prefix_set_param_hint split: if_splits)

lemma tied_set_parameter_hint: "set_parameter_hint n d m l = Inr m' \<Longrightarrow> tied m x \<Longrightarrow> tied m' x"
  by (auto simp: set_parameter_hint_def no_hint_def split: if_splits intro!: tied_set_param_hint_keep)

lemma table_hint_keep:
  assumes "table_hint t k n m = Inr m'"
  shows "prefix m' = prefix m" and "tied m x \<Longrightarrow> tied m' x"
  using assms
  by (auto simp: table_hint_def ebind_Inr prefix_set_parameter_hint tied_set_parameter_hint
      split: option.splits)

lemma tie_to_compton_props:
  assumes "tie_to_compton cp m n = Inr m'" "strip_prefix (prefix m) n = n"
  shows "tied m' n" "prefix m' = prefix m" "cp n \<noteq> None" "tied m x \<Longrightarrow> tied m' x"
proof -
  from assms(1) obtain v where v: "cp n = Some v"
    and m': "m' = set_param_hint m n (no_hint\<lparr>hint_value := Some v, hint_expr := Some n\<rparr>)"
    by (auto simp: tie_to_compton_def ebind_Inr getitem_def split: option.splits)
  show "cp n \<noteq> None" using v by simp
  show "prefix m' = prefix m" using m' by (simp add: prefix_set_param_hint)
  show n: "tied m' n"
    using tied_set_param_hint_new[of "no_hint\<lparr>hint_value := Some v, hint_expr := Some n\<rparr>" m n]
      assms(2) m' by simp
  show "tied m x \<Longrightarrow> tied m' x"
  proof (cases "x = n")
    case True
    then show ?thesis using n by simp
  next
    case False
    assume "tied m x"
    then show ?thesis unfolding m' using False assms(2)
      by (intro tied_set_param_hint_keep) auto
  qed
qed

lemma count_list_take_le: "count_list (take n xs) c \<le> count_list xs c"
proof -
  have "count_list xs c = count_list (take n xs @ drop n xs) c" by simp
  also have "\<dots> = count_list (take n xs) c + count_list (drop n xs) c"
    by (simp only: count_list_append)
  finally show ?thesis by simp
qed

lemma no_strip:
  assumes "2 \<le> count_list p CHR ''_''" "count_list name CHR ''_'' < 2"
  shows "strip_prefix p name = name"
proof -
  have "take (length p) name \<noteq> p"
  proof
    assume "take (length p) name = p"
    then have "count_list p CHR ''_'' \<le> count_list name CHR ''_''"
      using count_list_take_le[of "length p" name "CHR ''_''"] by simp
    with assms show False by simp
  qed
  then show ?thesis by (simp add: strip_prefix_def)
qed

lemma line_prefix_count: "2 \<le> count_list (ename @ ''_'' @ line_name @ ''_'') CHR ''_''"
  by simp

lemma globals_tied_p_set_param_hint:
  assumes "globals_tied_p p m" "2 \<le> count_list p CHR ''_''" "count_list n CHR ''_'' < 2"
    "n \<notin> set element_globals"
  shows "globals_tied_p p (set_param_hint m n kw)"
proof -
  have "strip_prefix (prefix m) n = n" using assms by (simp add: globals_tied_p_def no_strip)
  then show ?thesis
    using assms(1,4) by (auto simp: globals_tied_p_def prefix_set_param_hint intro!: tied_set_param_hint_keep)
qed

lemma globals_tied_p_table_hint:
  "table_hint t k n m = Inr m' \<Longrightarrow> globals_tied_p p m \<Longrightarrow> globals_tied_p p m'"
  by (auto simp: globals_tied_p_def table_hint_keep)

lemma prefix_ElementModel: "prefix (ElementModel p) = p"
  by (simp add: ElementModel_def prefix_set_param_hint)

lemma global_hints_tied:
  assumes "global_hints cp m = Inr m'" "2 \<le> count_list (prefix m) CHR ''_''"
  shows "globals_tied_p (prefix m) m'"
proof -
  from assms(1) obtain m1 m2 m3 m4 where
    1: "tie_to_compton cp m ''e_offset'' = Inr m1" and
    2: "tie_to_compton cp m1 ''e_linear'' = Inr m2" and
    3: "tie_to_compton cp m2 ''e_quadratic'' = Inr m3" and
    4: "tie_to_compton cp m3 ''fwhm_offset'' = Inr m4" and
    5: "tie_to_compton cp m4 ''fwhm_fanoprime'' = Inr m'"
    by (auto simp: global_hints_def ebind_Inr)
  have s: "\<And>n. count_list n CHR ''_'' < 2 \<Longrightarrow> strip_prefix (prefix m) n = n"
    using assms(2) by (simp add: no_strip)
  have p1: "prefix m1 = prefix m" using tie_to_compton_props(2)[OF 1] s by simp
  have p2: "prefix m2 = prefix m" using tie_to_compton_props(2)[OF 2] s p1 by simp
  have p3: "prefix m3 = prefix m" using tie_to_compton_props(2)[OF 3] s p2 by simp
  have p4: "prefix m4 = prefix m" using tie_to_compton_props(2)[OF 4] s p3 by simp
  have p5: "prefix m' = prefix m" using tie_to_compton_props(2)[OF 5] s p4 by simp
  have t1: "tied m1 ''e_offset''" using tie_to_compton_props(1)[OF 1] s by simp
  have t2: "tied m2 ''e_linear''" "tied m2 ''e_offset''"
    using tie_to_compton_props(1,4)[OF 2] s p1 t1 by simp_all
  have t3: "tied m3 ''e_quadratic''" "tied m3 ''e_linear''" "tied m3 ''e_offset''"
    using tie_to_compton_props(1,4)[OF 3] s p2 t2 by simp_all
  have t4: "tied m4 ''fwhm_offset''" "tied m4 ''e_quadratic''" "tied m4 ''e_linear''" "tied m4 ''e_offset''"
    using tie_to_compton_props(1,4)[OF 4] s p3 t3 by simp_all
  have t5: "tied m' ''fwhm_fanoprime''" "tied m' ''fwhm_offset''" "tied m' ''e_quadratic''"
    "tied m' ''e_linear''" "tied m' ''e_offset''"
    using tie_to_compton_props(1,4)[OF 5] s p4 t4 by simp_all
  show ?thesis using p5 t5 by (simp add: globals_tied_p_def element_globals_def)
qed

lemma K_area_hints_tied:
  "globals_tied_p p g \<Longrightarrow> 2 \<le> count_list p CHR ''_'' \<Longrightarrow> globals_tied_p p (K_area_hints ename line_name g)"
  by (simp add: K_area_hints_def Let_def globals_tied_p_set_param_hint element_globals_def)

lemma LM_area_hint_tied:
  "globals_tied_p p g \<Longrightarrow> 2 \<le> count_list p CHR ''_'' \<Longrightarrow> globals_tied_p p (LM_area_hint pl v ename line_name g)"
  by (simp add: LM_area_hint_def Let_def globals_tied_p_set_param_hint element_globals_def)

lemma K_gauss_mod_tied:
  assumes "K_gauss_mod self table ename e line_name val = Inr g"
  shows "globals_tied_p (ename @ ''_'' @ line_name @ ''_'') g"
proof -
  define p where "p = ename @ ''_'' @ line_name @ ''_''"
  have c: "2 \<le> count_list p CHR ''_''" by (simp add: p_def)
  note keep = globals_tied_p_set_param_hint[OF _ c]
  from assms obtain g0 g1 g2 g3 where
    0: "global_hints (compton_param self) (ElementModel p) = Inr g0" and
    1: "table_hint table (ename @ ''_'' @ line_name @ ''_area'') (ename @ ''_'' @ line_name @ ''_area'')
         (K_area_hints ename line_name g0) = Inr g1" and
    2: "table_hint table (ename @ ''_'' @ line_name @ ''_delta_center'') ''delta_center''
         (set_param_hint (set_param_hint (set_param_hint g1 ''center'' (value_vary val False))
            ''ratio'' (value_vary (cs e (incident_energy self) line_name / cs e (incident_energy self) ''ka1'') False))
            ''ratio_adjust'' (value_vary 1 False)) = Inr g2" and
    3: "table_hint table (ename @ ''_'' @ line_name @ ''_delta_sigma'') ''delta_sigma'' g2 = Inr g3" and
    4: "table_hint table (ename @ ''_'' @ line_name @ ''_ratio_adjust'') ''ratio_adjust'' g3 = Inr g"
    unfolding K_gauss_mod_def Let_def ebind_Inr p_def by blast
  have t0: "globals_tied_p p g0"
    using global_hints_tied[OF 0] c by (simp add: prefix_ElementModel)
  have t1: "globals_tied_p p g1"
    by (rule globals_tied_p_table_hint[OF 1]) (rule K_area_hints_tied[OF t0 c])
  have t2: "globals_tied_p p g2"
    by (rule globals_tied_p_table_hint[OF 2]) (simp add: keep t1 element_globals_def)
  show ?thesis
    using globals_tied_p_table_hint[OF 4] globals_tied_p_table_hint[OF 3] t2 p_def by blast
qed

lemma L_gauss_mod_tied:
  assumes "L_gauss_mod self table ename e line_name val = Inr g"
  shows "globals_tied_p (ename @ ''_'' @ line_name @ ''_'') g"
proof -
  define p where "p = ename @ ''_'' @ line_name @ ''_''"
  have c: "2 \<le> count_list p CHR ''_''" by (simp add: p_def)
  note keep = globals_tied_p_set_param_hint[OF _ c]
  from assms obtain g0 g1 g2 where
    0: "global_hints (compton_param self) (ElementModel p) = Inr g0" and
    1: "table_hint table (ename @ ''_'' @ line_name @ ''_delta_center'') ''delta_center''
         (set_param_hint (set_param_hint (set_param_hint (set_param_hint (set_param_hint (set_param_hint
            (LM_area_hint ''la1'' 100000 ename line_name g0)
            ''center'' (value_vary val False))
            ''sigma'' (value_vary 1 False))
            ''ratio'' (value_vary (cs e (incident_energy self) line_name / cs e (incident_energy self) ''la1'') False))
            ''delta_center'' (value_vary 0 False))
            ''delta_sigma'' (value_vary 0 False))
            ''ratio_adjust'' (value_vary 1 False)) = Inr g1" and
    2: "table_hint table (ename @ ''_'' @ line_name @ ''_delta_sigma'') ''delta_sigma'' g1 = Inr g2" and
    3: "table_hint table (ename @ ''_'' @ line_name @ ''_ratio_adjust'') ''ratio_adjust'' g2 = Inr g"
    unfolding L_gauss_mod_def Let_def ebind_Inr p_def by blast
  have t0: "globals_tied_p p g0"
    using global_hints_tied[OF 0] c by (simp add: prefix_ElementModel)
  have t1: "globals_tied_p p g1"
    by (rule globals_tied_p_table_hint[OF 1])
      (simp add: keep LM_area_hint_tied[OF t0 c] element_globals_def)
  show ?thesis
    using globals_tied_p_table_hint[OF 3] globals_tied_p_table_hint[OF 2] t1 p_def by blast
qed

lemma M_gauss_mod_tied:
  assumes "M_gauss_mod self ename line_name val = Inr g"
  shows "globals_tied_p (ename @ ''_'' @ line_name @ ''_'') g"
proof -
  define p where "p = ename @ ''_'' @ line_name @ ''_''"
  have c: "2 \<le> count_list p CHR ''_''" by (simp add: p_def)
  note keep = globals_tied_p_set_param_hint[OF _ c]
  from assms obtain g0 where
    0: "global_hints (compton_param self) (ElementModel p) = Inr g0" and
    1: "g = set_param_hint (set_param_hint (set_param_hint (set_param_hint (set_param_hint (set_param_hint
            (LM_area_hint ''ma1'' 100 ename line_name g0)
            ''center'' (value_vary val False))
            ''sigma'' (value_vary 1 False))
            ''ratio'' (value_vary 0.1 False))
            ''delta_center'' (value_vary 0 False))
            ''delta_sigma'' (value_vary 0 False))
            ''ratio_adjust'' (value_vary 1 False)"
    unfolding M_gauss_mod_def Let_def ebind_Inr p_def by auto
  have t0: "globals_tied_p p g0"
    using global_hints_tied[OF 0] c by (simp add: prefix_ElementModel)
  show ?thesis
    unfolding 1 p_def[symmetric]
    by (simp add: keep LM_area_hint_tied[OF t0 c] element_globals_def)
qed

lemma lines_loop_inv:
  assumes body: "\<And>ln v g. body ln v = Inr g \<Longrightarrow> Q g"
  shows "lines_loop b cross body lines acc = Inr r \<Longrightarrow> pred_option (list_all Q) acc
    \<Longrightarrow> pred_option (list_all Q) r"
proof (induction lines arbitrary: acc)
  case Nil
  then show ?case by simp
next
  case (Cons item rest)
  show ?case
  proof (cases "cross (fst item) = 0")
    case True
    with Cons.prems(1) have "lines_loop b cross body rest acc = Inr r" by (simp add: Let_def)
    then show ?thesis using Cons.prems(2) by (rule Cons.IH)
  next
    case False
    with Cons.prems(1) obtain g m where g: "body (fst item) (snd item) = Inr g"
      and m: "(case acc of Some m \<Rightarrow> model_add b m [g] | None \<Rightarrow> Inr [g]) = Inr m"
      and r: "lines_loop b cross body rest (Some m) = Inr r"
      by (auto simp: Let_def ebind_Inr)
    have "list_all Q m"
    proof (cases acc)
      case None
      with m body[OF g] show ?thesis by auto
    next
      case (Some a)
      with m have "m = a @ [g]" by (auto simp: model_add_def split: if_splits)
      with Cons.prems(2) Some body[OF g] show ?thesis by auto
    qed
    then have "pred_option (list_all Q) (Some m)" by simp
    with r show ?thesis by (rule Cons.IH)
  qed
qed

lemma setElementModel_tied:
  assumes "setElementModel b s self ename = Inr r"
  shows "pred_option (list_all globals_tied) r"
proof -
  have K: "\<And>t en e ln v g. K_gauss_mod self t en e ln v = Inr g \<Longrightarrow> globals_tied g"
    using K_gauss_mod_tied by (auto simp: globals_tied_p_def globals_tied_def list_all_iff)
  have L: "\<And>t en e ln v g. L_gauss_mod self t en e ln v = Inr g \<Longrightarrow> globals_tied g"
    using L_gauss_mod_tied by (auto simp: globals_tied_p_def globals_tied_def list_all_iff)
  have M: "\<And>en ln v g. M_gauss_mod self en ln v = Inr g \<Longrightarrow> globals_tied g"
    using M_gauss_mod_tied by (auto simp: globals_tied_p_def globals_tied_def list_all_iff)
  have n: "pred_option (list_all globals_tied) None" by simp
  consider (k) "ename \<in> set k_line" | (l) "ename \<notin> set k_line" "ename \<in> set l_line"
    | (m) "ename \<notin> set k_line" "ename \<notin> set l_line" "ename \<in> set m_line"
    | (o) "ename \<notin> set k_line" "ename \<notin> set l_line" "ename \<notin> set m_line"
    by blast
  then show ?thesis
  proof cases
    case k
    show ?thesis
    proof (cases "cs (XrfElement b ename) (incident_energy self) ''ka1'' = 0")
      case True
      with k assms show ?thesis by (simp add: setElementModel_def Let_def)
    next
      case False
      with k assms have "lines_loop b (cs (XrfElement b ename) (incident_energy self))
          (K_gauss_mod self (s (parameter self)) ename (XrfElement b ename))
          (take 4 (emission_line_all (XrfElement b ename))) None = Inr r"
        by (simp add: setElementModel_def Let_def)
      from lines_loop_inv[OF K this n] show ?thesis .
    qed
  next
    case l
    define en where "en = take (length ename - 2) ename"
    show ?thesis
    proof (cases "cs (XrfElement b en) (incident_energy self) ''la1'' = 0")
      case True
      with l assms show ?thesis by (simp add: setElementModel_def Let_def en_def)
    next
      case False
      with l assms have "lines_loop b (cs (XrfElement b en) (incident_energy self))
          (L_gauss_mod self (s (parameter self)) en (XrfElement b en))
          (drop 4 (take (length (emission_line_all (XrfElement b en)) - 4)
             (emission_line_all (XrfElement b en)))) None = Inr r"
        by (simp add: setElementModel_def Let_def en_def)
      from lines_loop_inv[OF L this n] show ?thesis .
    qed
  next
    case m
    define en where "en = take (length ename - 2) ename"
    show ?thesis
    proof (cases "cs (XrfElement b en) (incident_energy self) ''ma1'' = 0")
      case True
      with m assms show ?thesis by (simp add: setElementModel_def Let_def en_def)
    next
      case False
      with m assms have "lines_loop b (cs (XrfElement b en) (incident_energy self))
          (M_gauss_mod self en)
          (drop (length (emission_line_all (XrfElement b en)) - 4)
             (emission_line_all (XrfElement b en))) None = Inr r"
        by (simp add: setElementModel_def Let_def en_def)
      from lines_loop_inv[OF M this n] show ?thesis .
    qed
  next
    case o
    with assms show ?thesis by (simp add: setElementModel_def Let_def)
  qed
qed

lemma spectrum_loop_tied:
  "spectrum_loop b s self names m = Inr r \<Longrightarrow> \<exists>rest. r = m @ rest \<and> list_all globals_tied rest"
proof (induction names arbitrary: m)
  case Nil
  then show ?case by simp
next
  case (Cons ename names)
  from Cons.prems obtain g m' where g: "setElementModel b s self ename = Inr (Some g)"
    and m': "model_add b m g = Inr m'" and r: "spectrum_loop b s self names m' = Inr r"
    by (auto simp: ebind_Inr split: option.splits)
  from setElementModel_tied[OF g] have tg: "list_all globals_tied g" by simp
  from m' have "m' = m @ g" by (auto simp: model_add_def split: if_splits)
  moreover from Cons.IH[OF r] obtain rest where "r = m' @ rest" "list_all globals_tied rest"
    by blast
  ultimately have "r = m @ (g @ rest) \<and> list_all globals_tied (g @ rest)"
    using tg by simp
  then show ?case by blast
qed

lemma setElasticModel_tied:
  assumes "setElasticModel b table dflt cp = Inr el"
  shows "list_all (tied el) elastic_globals" "list_all (\<lambda>n. cp n \<noteq> None) elastic_globals"
    "prefix el = ''elastic_''"
proof -
  from assms obtain d m0 m1 m2 m3 m4 m5 where
    0: "set_parameter_hint ''coherent_sct_amplitude'' d
          \<lparr>prefix = ''elastic_'', param_hints = ElasticModel_hints b\<rparr> False = Inr m0" and
    1: "tie_to_compton cp m0 ''e_offset'' = Inr m1" and
    2: "tie_to_compton cp m1 ''e_linear'' = Inr m2" and
    3: "tie_to_compton cp m2 ''e_quadratic'' = Inr m3" and
    4: "tie_to_compton cp m3 ''fwhm_offset'' = Inr m4" and
    5: "tie_to_compton cp m4 ''fwhm_fanoprime'' = Inr m5" and
    6: "tie_to_compton cp m5 ''coherent_sct_energy'' = Inr el"
    unfolding setElasticModel_def Let_def ebind_Inr by blast
  have p0: "prefix m0 = ''elastic_''" using prefix_set_parameter_hint[OF 0] by simp
  have s: "strip_prefix ''elastic_'' ''e_offset'' = ''e_offset''"
    "strip_prefix ''elastic_'' ''e_linear'' = ''e_linear''"
    "strip_prefix ''elastic_'' ''e_quadratic'' = ''e_quadratic''"
    "strip_prefix ''elastic_'' ''fwhm_offset'' = ''fwhm_offset''"
    "strip_prefix ''elastic_'' ''fwhm_fanoprime'' = ''fwhm_fanoprime''"
    "strip_prefix ''elastic_'' ''coherent_sct_energy'' = ''coherent_sct_energy''"
    by (simp_all add: strip_prefix_def)
  have p1: "prefix m1 = ''elastic_''" using tie_to_compton_props(2)[OF 1] s p0 by simp
  have p2: "prefix m2 = ''elastic_''" using tie_to_compton_props(2)[OF 2] s p1 by simp
  have p3: "prefix m3 = ''elastic_''" using tie_to_compton_props(2)[OF 3] s p2 by simp
  have p4: "prefix m4 = ''elastic_''" using tie_to_compton_props(2)[OF 4] s p3 by simp
  have p5: "prefix m5 = ''elastic_''" using tie_to_compton_props(2)[OF 5] s p4 by simp
  show p6: "prefix el = ''elastic_''" using tie_to_compton_props(2)[OF 6] s p5 by simp
  have t1: "tied m1 ''e_offset''" using tie_to_compton_props(1)[OF 1] s p0 by simp
  have t2: "tied m2 ''e_linear''" "tied m2 ''e_offset''"
    using tie_to_compton_props(1,4)[OF 2] s p1 t1 by simp_all
  have t3: "tied m3 ''e_quadratic''" "tied m3 ''e_linear''" "tied m3 ''e_offset''"
    using tie_to_compton_props(1,4)[OF 3] s p2 t2 by simp_all
  have t4: "tied m4 ''fwhm_offset''" "tied m4 ''e_quadratic''" "tied m4 ''e_linear''"
    "tied m4 ''e_offset''"
    using tie_to_compton_props(1,4)[OF 4] s p3 t3 by simp_all
  have t5: "tied m5 ''fwhm_fanoprime''" "tied m5 ''fwhm_offset''" "tied m5 ''e_quadratic''"
    "tied m5 ''e_linear''" "tied m5 ''e_offset''"
    using tie_to_compton_props(1,4)[OF 5] s p4 t4 by simp_all
  have t6: "tied el ''coherent_sct_energy''" "tied el ''fwhm_fanoprime''" "tied el ''fwhm_offset''"
    "tied el ''e_quadratic''" "tied el ''e_linear''" "tied el ''e_offset''"
    using tie_to_compton_props(1,4)[OF 6] s p5 t5 by simp_all
  then show "list_all (tied el) elastic_globals" by (simp add: elastic_globals_def)
  show "list_all (\<lambda>n. cp n \<noteq> None) elastic_globals"
    using tie_to_compton_props(3)[OF 1] tie_to_compton_props(3)[OF 2] tie_to_compton_props(3)[OF 3]
      tie_to_compton_props(3)[OF 4] tie_to_compton_props(3)[OF 5] tie_to_compton_props(3)[OF 6]
      s p0 p1 p2 p3 p4 p5
    by (simp add: elastic_globals_def)
qed

lemma compton_hints_prefix: "compton_hints table dflt names m = Inr m' \<Longrightarrow> prefix m' = prefix m"
proof (induction names arbitrary: m)
  case Nil
  then show ?case by simp
next
  case (Cons n names)
  from Cons.prems obtain d m1 where 1: "set_parameter_hint n d m False = Inr m1"
    and 2: "compton_hints table dflt names m1 = Inr m'"
    by (auto simp: ebind_Inr)
  from Cons.IH[OF 2] prefix_set_parameter_hint[OF 1] show ?case by simp
qed

lemma config_props:
  assumes "config b s a dflt = Inr self"
  shows "parameter self = a" "prefix (compton self) = []" "mod_v self = None"
    "list_all (tied (elastic self)) elastic_globals"
    "list_all (\<lambda>n. compton_param self n \<noteq> None) elastic_globals"
    "prefix (elastic self) = ''elastic_''"
proof -
  from assms obtain nf and d :: ParameterSpec and cm emodel where
    c: "setComptonModel b (s a) dflt = Inr cm" and
    e: "setElasticModel b (s a) dflt (fst cm) = Inr emodel" and
    self0: "Inr \<lparr>parameter = a, parameter_default = dflt,
             element_list = config_element_list nf, incident_energy = value_v d,
             compton_param = fst cm, compton = snd cm, elastic = emodel, mod_v = None\<rparr>
           = (Inr self :: error + ModelSpectrum)"
    unfolding config_def Let_def ebind_Inr by blast
  from self0 have self: "self = \<lparr>parameter = a, parameter_default = dflt,
             element_list = config_element_list nf, incident_energy = value_v d,
             compton_param = fst cm, compton = snd cm, elastic = emodel, mod_v = None\<rparr>"
    by simp
  show "parameter self = a" "mod_v self = None" using self by simp_all
  from c have "prefix (snd cm) = []"
    by (auto simp: setComptonModel_def ebind_Inr dest: compton_hints_prefix)
  then show "prefix (compton self) = []" using self by simp
  show "list_all (tied (elastic self)) elastic_globals"
    "list_all (\<lambda>n. compton_param self n \<noteq> None) elastic_globals"
    "prefix (elastic self) = ''elastic_''"
    using setElasticModel_tied[OF e] self by simp_all
qed

subsection \<open>When construction and the loop bodies succeed\<close>

lemma set_parameter_hint_ok: "ok_spec d \<Longrightarrow> \<exists>m'. set_parameter_hint n d m l = Inr m'"
  by (auto simp: ok_spec_def set_parameter_hint_def)

lemma compton_hints_ok:
  "(\<And>n. n \<in> set names \<Longrightarrow> \<exists>d. table_or_default t dflt n = Inr (Spec d) \<and> ok_spec d)
     \<Longrightarrow> \<exists>m'. compton_hints t dflt names m = Inr m'"
proof (induction names arbitrary: m)
  case Nil
  then show ?case by simp
next
  case (Cons n names)
  from Cons.prems[of n] obtain d where d: "table_or_default t dflt n = Inr (Spec d)" "ok_spec d"
    by auto
  from set_parameter_hint_ok[OF d(2)] obtain m1 where m1: "set_parameter_hint n d m False = Inr m1"
    by blast
  from Cons.IH[of m1] Cons.prems obtain m' where "compton_hints t dflt names m1 = Inr m'"
    by auto
  with d(1) m1 show ?case by (simp add: as_spec_def)
qed

lemma tie_to_compton_ok: "cp n \<noteq> None \<Longrightarrow> \<exists>m'. tie_to_compton cp m n = Inr m'"
  by (auto simp: tie_to_compton_def getitem_def)

lemma setElasticModel_ok:
  assumes "table_or_default t dflt ''coherent_sct_amplitude'' = Inr (Spec d)" "ok_spec d"
    and cp: "list_all (\<lambda>n. cp n \<noteq> None) elastic_globals"
  shows "\<exists>el. setElasticModel b t dflt cp = Inr el"
proof -
  from cp have c: "cp ''e_offset'' \<noteq> None" "cp ''e_linear'' \<noteq> None" "cp ''e_quadratic'' \<noteq> None"
    "cp ''fwhm_offset'' \<noteq> None" "cp ''fwhm_fanoprime'' \<noteq> None" "cp ''coherent_sct_energy'' \<noteq> None"
    by (simp_all add: elastic_globals_def)
  from set_parameter_hint_ok[OF assms(2)] obtain m0 where
    0: "set_parameter_hint ''coherent_sct_amplitude'' d
          \<lparr>prefix = ''elastic_'', param_hints = ElasticModel_hints b\<rparr> False = Inr m0" by blast
  from c(1) obtain m1 where 1: "tie_to_compton cp m0 ''e_offset'' = Inr m1"
    using tie_to_compton_ok[of cp "''e_offset''" m0] by blast
  from c(2) obtain m2 where 2: "tie_to_compton cp m1 ''e_linear'' = Inr m2"
    using tie_to_compton_ok[of cp "''e_linear''" m1] by blast
  from c(3) obtain m3 where 3: "tie_to_compton cp m2 ''e_quadratic'' = Inr m3"
    using tie_to_compton_ok[of cp "''e_quadratic''" m2] by blast
  from c(4) obtain m4 where 4: "tie_to_compton cp m3 ''fwhm_offset'' = Inr m4"
    using tie_to_compton_ok[of cp "''fwhm_offset''" m3] by blast
  from c(5) obtain m5 where 5: "tie_to_compton cp m4 ''fwhm_fanoprime'' = Inr m5"
    using tie_to_compton_ok[of cp "''fwhm_fanoprime''" m4] by blast
  from c(6) obtain m6 where 6: "tie_to_compton cp m5 ''coherent_sct_energy'' = Inr m6"
    using tie_to_compton_ok[of cp "''coherent_sct_energy''" m5] by blast
  show ?thesis
    unfolding setElasticModel_def Let_def
    by (simp add: assms(1) as_spec_def 0 1 2 3 4 5 6)
qed

lemma ModelSpectrum_init_ok:
  assumes nf: "map_of (s a) ''non_fitting_values'' = Some nf"
    and en: "map_of (s a) ''coherent_sct_energy'' = Some (Spec d)"
    and names: "\<And>n. n \<in> set (compton_list @ [''coherent_sct_amplitude'']) \<Longrightarrow>
       \<exists>d. table_or_default (s a) (get_para b) n = Inr (Spec d) \<and> ok_spec d"
    and mp: "\<And>m. list_all (\<lambda>n. make_params b m n \<noteq> None) elastic_globals"
  shows "\<exists>self. ModelSpectrum_init b s a = Inr self \<and> parameter self = a \<and>
     element_list self = config_element_list nf \<and> incident_energy self = value_v d"
proof -
  from compton_hints_ok[of compton_list "s a" "get_para b"] names
  obtain cm where cm: "compton_hints (s a) (get_para b) compton_list
       \<lparr>prefix = [], param_hints = ComptonModel_hints b\<rparr> = Inr cm"
    by (metis Un_iff set_append)
  from names[of "''coherent_sct_amplitude''"] obtain da where
    da: "table_or_default (s a) (get_para b) ''coherent_sct_amplitude'' = Inr (Spec da)" "ok_spec da"
    by auto
  from setElasticModel_ok[OF da mp] obtain el where
    el: "setElasticModel b (s a) (get_para b) (make_params b cm) = Inr el" by blast
  show ?thesis
    by (simp add: ModelSpectrum_init_def config_def Let_def getitem_def nf en as_spec_def
        setComptonModel_def cm el)
qed

lemma global_hints_ok:
  assumes "list_all (\<lambda>n. cp n \<noteq> None) element_globals"
  shows "\<exists>g. global_hints cp m = Inr g"
proof -
  from assms have c: "cp ''e_offset'' \<noteq> None" "cp ''e_linear'' \<noteq> None" "cp ''e_quadratic'' \<noteq> None"
    "cp ''fwhm_offset'' \<noteq> None" "cp ''fwhm_fanoprime'' \<noteq> None"
    by (simp_all add: element_globals_def)
  from c(1) obtain m1 where 1: "tie_to_compton cp m ''e_offset'' = Inr m1"
    using tie_to_compton_ok[of cp "''e_offset''" m] by blast
  from c(2) obtain m2 where 2: "tie_to_compton cp m1 ''e_linear'' = Inr m2"
    using tie_to_compton_ok[of cp "''e_linear''" m1] by blast
  from c(3) obtain m3 where 3: "tie_to_compton cp m2 ''e_quadratic'' = Inr m3"
    using tie_to_compton_ok[of cp "''e_quadratic''" m2] by blast
  from c(4) obtain m4 where 4: "tie_to_compton cp m3 ''fwhm_offset'' = Inr m4"
    using tie_to_compton_ok[of cp "''fwhm_offset''" m3] by blast
  from c(5) obtain m5 where 5: "tie_to_compton cp m4 ''fwhm_fanoprime'' = Inr m5"
    using tie_to_compton_ok[of cp "''fwhm_fanoprime''" m4] by blast
  show ?thesis unfolding global_hints_def by (simp add: 1 2 3 4 5)
qed

lemma table_hint_absent: "map_of t k = None \<Longrightarrow> table_hint t k n m = Inr m"
  by (simp add: table_hint_def)

lemma K_gauss_mod_ok:
  assumes "list_all (\<lambda>n. compton_param self n \<noteq> None) element_globals"
    and "\<And>k. map_of t (ename @ ''_'' @ line_name @ k) = None"
  shows "\<exists>g. K_gauss_mod self t ename e line_name v = Inr g \<and> prefix g = ename @ ''_'' @ line_name @ ''_''"
proof -
  from global_hints_ok[OF assms(1)] obtain g0 where
    g0: "global_hints (compton_param self) (ElementModel (ename @ ''_'' @ line_name @ ''_'')) = Inr g0"
    by blast
  have "\<exists>g. K_gauss_mod self t ename e line_name v = Inr g"
    unfolding K_gauss_mod_def Let_def g0 ebind.simps table_hint_absent[OF assms(2)]
    by blast
  then obtain g where g: "K_gauss_mod self t ename e line_name v = Inr g" by blast
  from K_gauss_mod_tied[OF g] have "prefix g = ename @ ''_'' @ line_name @ ''_''"
    by (simp add: globals_tied_p_def)
  with g show ?thesis by blast
qed

subsection \<open>The example boundary\<close>

lemmas ex_defs = ex_spec_fixed_def ex_default_def ex_element_def ex_boundary_def ex_table_def
  ex_store_def

lemma ex_names:
  "n \<in> set (compton_list @ [''coherent_sct_amplitude'']) \<Longrightarrow>
     \<exists>d. table_or_default (ex_store (ex_table energy elements) 0) (get_para ex_boundary) n = Inr (Spec d)
       \<and> ok_spec d"
  by (auto simp: compton_list_def table_or_default_def getitem_def ex_defs ok_spec_def)

lemma ex_make_params: "list_all (\<lambda>n. make_params ex_boundary m n \<noteq> None) elastic_globals"
  by (simp add: ex_boundary_def list_all_iff)

lemma ex_init:
  "\<exists>self. ModelSpectrum_init ex_boundary (ex_store (ex_table energy elements)) 0 = Inr self \<and>
     parameter self = 0 \<and>
     element_list self = config_element_list (NonFit \<lparr>nf_element_list = elements,
        nf_energy_bound_low = Some 2, nf_energy_bound_high = Some 10\<rparr>) \<and>
     incident_energy self = Num energy"
proof -
  have nf: "map_of (ex_store (ex_table energy elements) 0) ''non_fitting_values'' =
      Some (NonFit \<lparr>nf_element_list = elements, nf_energy_bound_low = Some 2,
        nf_energy_bound_high = Some 10\<rparr>)"
    by (simp add: ex_store_def ex_table_def)
  have en: "map_of (ex_store (ex_table energy elements) 0) ''coherent_sct_energy'' =
      Some (Spec (ex_spec_fixed energy))"
    by (simp add: ex_store_def ex_table_def)
  from ModelSpectrum_init_ok[where s = "ex_store (ex_table energy elements)" and a = 0
      and b = ex_boundary, OF nf en ex_names ex_make_params]
  show ?thesis by (simp add: ex_spec_fixed_def)
qed

lemma ex_element_list: "config_element_list (NonFit \<lparr>nf_element_list = Some ''Fe'',
        nf_energy_bound_low = Some 2, nf_energy_bound_high = Some 10\<rparr>) = Some [''Fe'']"
  by (simp add: config_element_list_def py_strip_def is_space_def)

lemma ex_no_line_keys: "map_of (ex_store (ex_table energy elements) 0) (''Fe'' @ ''_'' @ line_name @ k) = None"
  by (simp add: ex_store_def ex_table_def)

lemma ex_setElementModel:
  assumes "ModelSpectrum_init ex_boundary (ex_store (ex_table 12000 elements)) 0 = Inr self"
    "incident_energy self = Num 12000" "parameter self = 0"
  shows "\<exists>g1 g2 g3. setElementModel ex_boundary (ex_store (ex_table 12000 elements)) self ''Fe''
       = Inr (Some [g1, g2, g3]) \<and>
     prefix g1 = ''Fe_ka1_'' \<and> prefix g2 = ''Fe_ka2_'' \<and> prefix g3 = ''Fe_kb1_''"
proof -
  let ?s = "ex_store (ex_table 12000 elements)"
  note c = config_props[OF assms(1)[unfolded ModelSpectrum_init_def]]
  have cp: "list_all (\<lambda>n. compton_param self n \<noteq> None) element_globals"
    using c(5) by (simp add: elastic_globals_def element_globals_def)
  have k_ka1: "\<And>k. map_of (?s 0) (''Fe'' @ ''_'' @ ''ka1'' @ k) = None"
    by (rule ex_no_line_keys)
  from K_gauss_mod_ok[OF cp k_ka1, of ex_element "6404"]
  obtain g1 where g1: "K_gauss_mod self (?s 0) ''Fe'' ex_element ''ka1'' 6404 = Inr g1"
    "prefix g1 = ''Fe_ka1_''" by auto
  have k_ka2: "\<And>k. map_of (?s 0) (''Fe'' @ ''_'' @ ''ka2'' @ k) = None"
    by (rule ex_no_line_keys)
  from K_gauss_mod_ok[OF cp k_ka2, of ex_element "6391"]
  obtain g2 where g2: "K_gauss_mod self (?s 0) ''Fe'' ex_element ''ka2'' 6391 = Inr g2"
    "prefix g2 = ''Fe_ka2_''" by auto
  have k_kb1: "\<And>k. map_of (?s 0) (''Fe'' @ ''_'' @ ''kb1'' @ k) = None"
    by (rule ex_no_line_keys)
  from K_gauss_mod_ok[OF cp k_kb1, of ex_element "7058"]
  obtain g3 where g3: "K_gauss_mod self (?s 0) ''Fe'' ex_element ''kb1'' 7058 = Inr g3"
    "prefix g3 = ''Fe_kb1_''" by auto
  have cs: "cs ex_element (Num 12000) = (\<lambda>line. 1)" by (simp add: ex_element_def)
  have lines: "emission_line_all ex_element = [(''ka1'', 6404), (''ka2'', 6391), (''kb1'', 7058)]"
    by (simp add: ex_element_def)
  have x: "XrfElement ex_boundary = (\<lambda>name. ex_element)"
    and compat: "compatible ex_boundary = (\<lambda>left right. set (map prefix left) \<inter> set (map prefix right) = {})"
    by (simp_all add: ex_boundary_def)
  have "setElementModel ex_boundary ?s self ''Fe'' = Inr (Some [g1, g2, g3])"
    by (simp add: setElementModel_def Let_def Fe_in_k_line assms(2,3) x cs lines g1 g2 g3
        model_add_def compat)
  with g1(2) g2(2) g3(2) show ?thesis by blast
qed

lemma ex_set_parameter_bound:
  "set_parameter_bound (ex_table 12000 (Some ''Fe'')) ''free_more'' =
     ([(''non_fitting_values'', NonFit \<lparr>nf_element_list = Some ''Fe'', nf_energy_bound_low = Some 2,
         nf_energy_bound_high = Some 10\<rparr>),
       (''coherent_sct_energy'', Spec ((ex_spec_fixed 12000)\<lparr>bound_type := Str ''none''\<rparr>))], None)"
  by (simp add: ex_table_def as_spec_def spec_getitem_def ex_spec_fixed_def)

subsection \<open>The global calibration of the composite\<close>

text \<open>
  C2. Let a ModelSpectrum be constructed and \<^verbatim>\<open>model_spectrum\<close> build its composite.
  The composite is the Compton model, the elastic model and then the sub-line models
  of the elements. The Compton model has no prefix and has the six parameters
  \<^verbatim>\<open>e_offset\<close>, \<^verbatim>\<open>e_linear\<close>, \<^verbatim>\<open>e_quadratic\<close>, \<^verbatim>\<open>fwhm_offset\<close>, \<^verbatim>\<open>fwhm_fanoprime\<close> and
  \<^verbatim>\<open>coherent_sct_energy\<close>; each of the six is tied in the elastic model to the Compton
  parameter of the same name, and each of the first five is tied so in every sub-line
  model of every element. So all sub-models share the Compton model's energy
  calibration and resolution parameters.
\<close>

theorem global_calibration:
  assumes "ModelSpectrum_init b s xrf_parameter = Inr self"
    and "model_spectrum b s self = Inr self'"
  shows "prefix (compton self') = [] \<and>
     list_all (\<lambda>name. compton_param self' name \<noteq> None) elastic_globals \<and>
     list_all (tied (elastic self')) elastic_globals \<and>
     (\<exists>rest. mod_v self' = Some (compton self' # elastic self' # rest) \<and>
        list_all (\<lambda>g. list_all (tied g) element_globals) rest)"
proof -
  note c = config_props[OF assms(1)[unfolded ModelSpectrum_init_def]]
  from assms(2) obtain m names r where
    m: "model_add b [compton self] [elastic self] = Inr m" and
    r: "spectrum_loop b s self names m = Inr r" and
    self': "self' = self\<lparr>mod_v := Some r\<rparr>"
    by (auto simp: model_spectrum_def ebind_Inr split: option.splits)
  from m have m2: "m = [compton self, elastic self]"
    by (auto simp: model_add_def split: if_splits)
  from spectrum_loop_tied[OF r] obtain rest where rest: "r = m @ rest" "list_all globals_tied rest"
    by blast
  have "list_all (\<lambda>g. list_all (tied g) element_globals) rest"
    using rest(2) by (simp add: globals_tied_def[abs_def])
  then show ?thesis using c self' m2 rest(1) by simp
qed

text \<open>
  The theorem on the example: iron at 12000 eV gives the composite of Compton, elastic
  and the three lines \<^verbatim>\<open>Fe_ka1_\<close>, \<^verbatim>\<open>Fe_ka2_\<close> and \<^verbatim>\<open>Fe_kb1_\<close>.
\<close>

theorem global_calibration_witness:
  "\<exists>self self' g1 g2 g3.
     ModelSpectrum_init ex_boundary (ex_store (ex_table 12000 (Some ''Fe''))) 0 = Inr self \<and>
     model_spectrum ex_boundary (ex_store (ex_table 12000 (Some ''Fe''))) self = Inr self' \<and>
     mod_v self' = Some [compton self', elastic self', g1, g2, g3] \<and>
     prefix (compton self') = [] \<and> prefix (elastic self') = ''elastic_'' \<and>
     prefix g1 = ''Fe_ka1_'' \<and> prefix g2 = ''Fe_ka2_'' \<and> prefix g3 = ''Fe_kb1_'' \<and>
     list_all (tied (elastic self')) elastic_globals \<and>
     list_all (tied g1) element_globals \<and> list_all (tied g2) element_globals \<and>
     list_all (tied g3) element_globals"
proof -
  let ?s = "ex_store (ex_table 12000 (Some ''Fe''))"
  from ex_init[of 12000 "Some ''Fe''"] obtain self where
    init: "ModelSpectrum_init ex_boundary ?s 0 = Inr self" and
    p: "parameter self = 0" and el: "element_list self = Some [''Fe'']" and
    ie: "incident_energy self = Num 12000"
    by (auto simp: ex_element_list)
  note c = config_props[OF init[unfolded ModelSpectrum_init_def]]
  from ex_setElementModel[OF init ie p] obtain g1 g2 g3 where
    g: "setElementModel ex_boundary ?s self ''Fe'' = Inr (Some [g1, g2, g3])"
    "prefix g1 = ''Fe_ka1_''" "prefix g2 = ''Fe_ka2_''" "prefix g3 = ''Fe_kb1_''"
    by blast
  have compat: "compatible ex_boundary = (\<lambda>left right. set (map prefix left) \<inter> set (map prefix right) = {})"
    by (simp add: ex_boundary_def)
  define self' where "self' = self\<lparr>mod_v := Some [compton self, elastic self, g1, g2, g3]\<rparr>"
  have ms: "model_spectrum ex_boundary ?s self = Inr self'"
    by (simp add: model_spectrum_def model_add_def compat c(2) c(6) el g self'_def)
  from global_calibration[OF init ms] obtain rest where
    r: "mod_v self' = Some (compton self' # elastic self' # rest)"
       "list_all (\<lambda>g. list_all (tied g) element_globals) rest"
       "list_all (tied (elastic self')) elastic_globals"
    by blast
  have m: "mod_v self' = Some [compton self', elastic self', g1, g2, g3]"
    by (simp add: self'_def)
  with r(1) have "rest = [g1, g2, g3]" by simp
  with r(2) have t: "list_all (tied g1) element_globals" "list_all (tied g2) element_globals"
    "list_all (tied g3) element_globals" by simp_all
  have pc: "prefix (compton self') = []" "prefix (elastic self') = ''elastic_''"
    using c(2) c(6) by (simp_all add: self'_def)
  from init ms m pc g(2,3,4) r(3) t show ?thesis by blast
qed

subsection \<open>An element whose principal line is not excited\<close>

text \<open>
  Whenever the principal line of an element has no cross-section, \<^verbatim>\<open>setElementModel\<close>
  returns None; and whenever it returns None for an element of the list,
  \<^verbatim>\<open>model_spectrum\<close> does not return.
\<close>

lemma setElementModel_inactive:
  "ename \<in> set k_line \<Longrightarrow> cs (XrfElement b ename) (incident_energy self) ''ka1'' = 0
     \<Longrightarrow> setElementModel b s self ename = Inr None"
  "ename \<notin> set k_line \<Longrightarrow> ename \<in> set l_line \<Longrightarrow>
     cs (XrfElement b (take (length ename - 2) ename)) (incident_energy self) ''la1'' = 0
     \<Longrightarrow> setElementModel b s self ename = Inr None"
  "ename \<notin> set k_line \<Longrightarrow> ename \<notin> set l_line \<Longrightarrow> ename \<in> set m_line \<Longrightarrow>
     cs (XrfElement b (take (length ename - 2) ename)) (incident_energy self) ''ma1'' = 0
     \<Longrightarrow> setElementModel b s self ename = Inr None"
  by (simp_all add: setElementModel_def Let_def)

lemma spectrum_loop_None:
  "ename \<in> set names \<Longrightarrow> setElementModel b s self ename = Inr None
     \<Longrightarrow> spectrum_loop b s self names m \<noteq> Inr r"
proof (induction names arbitrary: m)
  case Nil
  then show ?case by simp
next
  case (Cons n names)
  show ?case
  proof (cases "setElementModel b s self n")
    case (Inl e)
    then show ?thesis by simp
  next
    case (Inr em)
    show ?thesis
    proof (cases em)
      case None
      with Inr show ?thesis by simp
    next
      case (Some g)
      with Inr Cons.prems have in_rest: "ename \<in> set names" by auto
      show ?thesis
      proof (cases "model_add b m g")
        case (Inl e)
        with Inr Some show ?thesis by simp
      next
        case (Inr m')
        from Cons.IH[OF in_rest Cons.prems(2), of m'] Inr Some \<open>setElementModel b s self n = Inr em\<close>
        show ?thesis by simp
      qed
    qed
  qed
qed

lemma model_spectrum_None_raises:
  "element_list self = Some names \<Longrightarrow> ename \<in> set names \<Longrightarrow>
     setElementModel b s self ename = Inr None \<Longrightarrow> model_spectrum b s self \<noteq> Inr self'"
  by (auto simp: model_spectrum_def ebind_Inr spectrum_loop_None)

text \<open>
  C7. In the example at 5000 eV the \<^verbatim>\<open>ka1\<close> line of iron has no cross-section.
  \<^verbatim>\<open>setElementModel\<close> returns None for it, as the claim says; but \<^verbatim>\<open>model_spectrum\<close>
  then adds this None to the composite and raises, where the claim says that building
  the composite does not raise. \<^verbatim>\<open>get_linear_model\<close> on the same input skips the
  element and selects nothing.
\<close>

theorem model_spectrum_inactive_element:
  "(case ModelSpectrum_init ex_boundary (ex_store (ex_table 5000 (Some ''Fe''))) 0 of
      Inl err \<Rightarrow> False
    | Inr self \<Rightarrow>
        element_list self = Some [''Fe''] \<and>
        setElementModel ex_boundary (ex_store (ex_table 5000 (Some ''Fe''))) self ''Fe'' = Inr None \<and>
        model_spectrum ex_boundary (ex_store (ex_table 5000 (Some ''Fe''))) self = Inl TypeError) \<and>
   get_linear_model_e_select ex_boundary (ex_store (ex_table 5000 (Some ''Fe''))) 0 = Inr []"
proof -
  let ?s = "ex_store (ex_table 5000 (Some ''Fe''))"
  from ex_init[of 5000 "Some ''Fe''"] obtain self where
    init: "ModelSpectrum_init ex_boundary ?s 0 = Inr self" and
    p: "parameter self = 0" and el: "element_list self = Some [''Fe'']" and
    ie: "incident_energy self = Num 5000"
    by (auto simp: ex_element_list)
  note c = config_props[OF init[unfolded ModelSpectrum_init_def]]
  have compat: "compatible ex_boundary = (\<lambda>left right. set (map prefix left) \<inter> set (map prefix right) = {})"
    and x: "XrfElement ex_boundary = (\<lambda>name. ex_element)"
    by (simp_all add: ex_boundary_def)
  have cs: "cs ex_element (Num 5000) ''ka1'' = 0" by (simp add: ex_element_def)
  have se: "setElementModel ex_boundary ?s self ''Fe'' = Inr None"
    by (simp add: setElementModel_def Let_def Fe_in_k_line ie x cs)
  have ms: "model_spectrum ex_boundary ?s self = Inl TypeError"
    by (simp add: model_spectrum_def model_add_def compat c(2) c(6) el se)
  have gl: "get_linear_model_e_select ex_boundary ?s 0 = Inr []"
    by (simp add: get_linear_model_e_select_def init el se)
  show ?thesis using init el se ms gl by simp
qed

subsection \<open>A table without an element list\<close>

text \<open>
  Whenever the dictionary \<^verbatim>\<open>non_fitting_values\<close> has no key \<^verbatim>\<open>element_list\<close>, a
  constructed instance has no attribute \<^verbatim>\<open>element_list\<close>, and \<^verbatim>\<open>model_spectrum\<close> does
  not return.
\<close>

lemma model_spectrum_unset_raises:
  "element_list self = None \<Longrightarrow> model_spectrum b s self \<noteq> Inr self'"
  by (auto simp: model_spectrum_def ebind_Inr)

lemma config_element_list_attr:
  assumes "config b s a dflt = Inr self"
  shows "\<exists>nf. map_of (s a) ''non_fitting_values'' = Some nf \<and>
     element_list self = config_element_list nf"
proof -
  from assms obtain nf and d :: ParameterSpec and cm emodel where
    nf: "getitem (map_of (s a)) ''non_fitting_values'' = Inr nf" and
    self0: "Inr \<lparr>parameter = a, parameter_default = dflt,
             element_list = config_element_list nf, incident_energy = value_v d,
             compton_param = fst cm, compton = snd cm, elastic = emodel, mod_v = None\<rparr>
           = (Inr self :: error + ModelSpectrum)"
    unfolding config_def Let_def ebind_Inr by blast
  from nf have "map_of (s a) ''non_fitting_values'' = Some nf"
    by (simp add: getitem_def split: option.splits)
  moreover from self0 have "element_list self = config_element_list nf" by auto
  ultimately show ?thesis by blast
qed

lemma no_element_list_raises:
  assumes "ModelSpectrum_init b s a = Inr self"
    and "map_of (s a) ''non_fitting_values'' = Some (NonFit nf)" "nf_element_list nf = None"
  shows "element_list self = None" "model_spectrum b s self \<noteq> Inr self'"
proof -
  from config_element_list_attr[OF assms(1)[unfolded ModelSpectrum_init_def]] assms(2,3)
  show "element_list self = None" by (auto simp: config_element_list_def)
  then show "model_spectrum b s self \<noteq> Inr self'" by (rule model_spectrum_unset_raises)
qed

text \<open>
  C6. In the example without the key \<^verbatim>\<open>element_list\<close> the construction succeeds and
  leaves the attribute \<^verbatim>\<open>element_list\<close> unassigned; \<^verbatim>\<open>model_spectrum\<close> then raises
  AttributeError, where the claim says that it produces the composite of the Compton
  and the elastic model.
\<close>

theorem model_spectrum_no_element_list:
  "(case ModelSpectrum_init ex_boundary (ex_store (ex_table 12000 None)) 0 of
      Inl err \<Rightarrow> False
    | Inr self \<Rightarrow>
        element_list self = None \<and>
        model_spectrum ex_boundary (ex_store (ex_table 12000 None)) self = Inl AttributeError)"
proof -
  let ?s = "ex_store (ex_table 12000 None)"
  from ex_init[of 12000 None] obtain self where
    init: "ModelSpectrum_init ex_boundary ?s 0 = Inr self" and
    el: "element_list self = None"
    by (auto simp: config_element_list_def)
  note c = config_props[OF init[unfolded ModelSpectrum_init_def]]
  have compat: "compatible ex_boundary = (\<lambda>left right. set (map prefix left) \<inter> set (map prefix right) = {})"
    by (simp add: ex_boundary_def)
  have ms: "model_spectrum ex_boundary ?s self = Inl AttributeError"
    by (simp add: model_spectrum_def model_add_def compat c(2) c(6) el)
  show ?thesis using init el ms by simp
qed

subsection \<open>The table of an instance\<close>

text \<open>
  C5, as amended. The constructor stores the address it was given: the table of an
  instance is the caller's table, not a copy. Two instances built from the same table
  share it with each other and with the caller, so whatever is written to the table of
  one of them, by an assignment or by \<^verbatim>\<open>set_parameter_bound\<close>, is what the caller and
  the other instance read.
\<close>

theorem ModelSpectrum_shares_table:
  assumes "ModelSpectrum_init b s xrf_parameter = Inr self1"
    and "ModelSpectrum_init b s xrf_parameter = Inr self2"
  shows "parameter self1 = xrf_parameter \<and> parameter self2 = xrf_parameter \<and>
     (\<forall>t. (s(parameter self1 := t)) xrf_parameter = t \<and>
          (s(parameter self1 := t)) (parameter self2) = t) \<and>
     (\<forall>bound_option.
        fst (set_parameter_bound_at s (parameter self1) bound_option) xrf_parameter
          = fst (set_parameter_bound (s xrf_parameter) bound_option) \<and>
        fst (set_parameter_bound_at s (parameter self1) bound_option) (parameter self2)
          = fst (set_parameter_bound (s xrf_parameter) bound_option))"
proof -
  have 1: "parameter self1 = xrf_parameter"
    using config_props(1)[OF assms(1)[unfolded ModelSpectrum_init_def]] .
  have 2: "parameter self2 = xrf_parameter"
    using config_props(1)[OF assms(2)[unfolded ModelSpectrum_init_def]] .
  show ?thesis
    by (simp add: 1 2 set_parameter_bound_at_def split: prod.splits)
qed

theorem ModelSpectrum_shares_table_witness:
  "\<exists>self1 self2.
     ModelSpectrum_init ex_boundary (ex_store (ex_table 12000 (Some ''Fe''))) 0 = Inr self1 \<and>
     ModelSpectrum_init ex_boundary (ex_store (ex_table 12000 (Some ''Fe''))) 0 = Inr self2 \<and>
     parameter self1 = 0 \<and> parameter self2 = 0 \<and>
     fst (set_parameter_bound_at (ex_store (ex_table 12000 (Some ''Fe''))) (parameter self1) ''free_more'')
         (parameter self2)
       = fst (set_parameter_bound (ex_table 12000 (Some ''Fe'')) ''free_more'')"
proof -
  let ?s = "ex_store (ex_table 12000 (Some ''Fe''))"
  from ex_init[of 12000 "Some ''Fe''"] obtain self where
    init: "ModelSpectrum_init ex_boundary ?s 0 = Inr self" by blast
  have s0: "?s 0 = ex_table 12000 (Some ''Fe'')" by (simp add: ex_store_def)
  from ModelSpectrum_shares_table[OF init init] s0 init show ?thesis by metis
qed

text \<open>
  The claim as stated fails: in the example, \<^verbatim>\<open>set_parameter_bound\<close> with
  \<^verbatim>\<open>free_more\<close> on the table of the first instance changes the bound type of
  \<^verbatim>\<open>coherent_sct_energy\<close> from \<open>fixed\<close> to \<open>none\<close> in the caller's table at address
  0 and in the table of the second instance.
\<close>

theorem ModelSpectrum_own_copy_counterexample:
  "(case ModelSpectrum_init ex_boundary (ex_store (ex_table 12000 (Some ''Fe''))) 0 of
      Inl err \<Rightarrow> False
    | Inr self1 \<Rightarrow>
       (case ModelSpectrum_init ex_boundary (ex_store (ex_table 12000 (Some ''Fe''))) 0 of
          Inl err \<Rightarrow> False
        | Inr self2 \<Rightarrow>
           map_of (ex_store (ex_table 12000 (Some ''Fe'')) 0) ''coherent_sct_energy''
             = Some (Spec (ex_spec_fixed 12000)) \<and>
           map_of (fst (set_parameter_bound_at (ex_store (ex_table 12000 (Some ''Fe'')))
                          (parameter self1) ''free_more'') 0) ''coherent_sct_energy''
             = Some (Spec ((ex_spec_fixed 12000)\<lparr>bound_type := Str ''none''\<rparr>)) \<and>
           map_of (fst (set_parameter_bound_at (ex_store (ex_table 12000 (Some ''Fe'')))
                          (parameter self1) ''free_more'') (parameter self2)) ''coherent_sct_energy''
             = Some (Spec ((ex_spec_fixed 12000)\<lparr>bound_type := Str ''none''\<rparr>)) \<and>
           bound_type (ex_spec_fixed 12000) = Str ''fixed''))"
proof -
  let ?s = "ex_store (ex_table 12000 (Some ''Fe''))"
  from ex_init[of 12000 "Some ''Fe''"] obtain self where
    init: "ModelSpectrum_init ex_boundary ?s 0 = Inr self" and p: "parameter self = 0" by blast
  have s0: "?s 0 = ex_table 12000 (Some ''Fe'')" by (simp add: ex_store_def)
  have a: "map_of (?s 0) ''coherent_sct_energy'' = Some (Spec (ex_spec_fixed 12000))"
    by (simp add: ex_store_def ex_table_def)
  have b: "map_of (fst (set_parameter_bound_at ?s 0 ''free_more'') 0) ''coherent_sct_energy''
      = Some (Spec ((ex_spec_fixed 12000)\<lparr>bound_type := Str ''none''\<rparr>))"
    by (simp add: set_parameter_bound_at_def s0 ex_set_parameter_bound)
  have c: "bound_type (ex_spec_fixed 12000) = Str ''fixed''" by (simp add: ex_spec_fixed_def)
  show ?thesis by (simp add: init p a b c)
qed

end
